theory Spec2Isabelle
  imports Complex_Main
begin

section \<open>Constants of main\_denoising.py\<close>

definition SR :: int where "SR = 16000"
definition WL :: int where "WL = 512"
definition WL2 :: int where "WL2 = WL div 2"
definition NFREQS :: int where "NFREQS = 257"

section \<open>Exceptions\<close>

text \<open>
  Every exception the orchestrator can meet is a value. \<open>UtilsError\<close> stands for
  whatever the helper module (\<open>utils\<close>), which is not part of the file, may raise.
\<close>

datatype error = ZeroDivisionError | ValueError | IOError | KeyError | UtilsError

section \<open>Floating-point values and numpy matrices\<close>

text \<open>
  A matrix entry is a float as numpy sees it: a finite value, an infinity or NaN.
  Finite arithmetic is exact (no rounding, no overflow) and zero carries no sign; the
  special values follow IEEE 754, which is what \<open>np.log\<close>, \<open>+\<close>, \<open>-\<close> and \<open>/\<close>
  return under numpy's default error state (a warning, never an exception).
\<close>

datatype npfloat = Fin real | PInf | NInf | NaN

fun np_log1 :: "npfloat \<Rightarrow> npfloat" where
  "np_log1 (Fin x) = (if 0 < x then Fin (ln x) else if x = 0 then NInf else NaN)"
| "np_log1 PInf = PInf"
| "np_log1 NInf = NaN"
| "np_log1 NaN = NaN"

fun np_neg1 :: "npfloat \<Rightarrow> npfloat" where
  "np_neg1 (Fin x) = Fin (- x)"
| "np_neg1 PInf = NInf"
| "np_neg1 NInf = PInf"
| "np_neg1 NaN = NaN"

fun np_add1 :: "npfloat \<Rightarrow> npfloat \<Rightarrow> npfloat" where
  "np_add1 (Fin x) (Fin y) = Fin (x + y)"
| "np_add1 NaN _ = NaN"
| "np_add1 _ NaN = NaN"
| "np_add1 PInf NInf = NaN"
| "np_add1 NInf PInf = NaN"
| "np_add1 PInf _ = PInf"
| "np_add1 NInf _ = NInf"
| "np_add1 (Fin x) PInf = PInf"
| "np_add1 (Fin x) NInf = NInf"

definition np_sub1 :: "npfloat \<Rightarrow> npfloat \<Rightarrow> npfloat" where
  "np_sub1 a b = np_add1 a (np_neg1 b)"

fun np_div1 :: "npfloat \<Rightarrow> npfloat \<Rightarrow> npfloat" where
  "np_div1 (Fin x) (Fin y) =
     (if y \<noteq> 0 then Fin (x / y)
      else if 0 < x then PInf else if x < 0 then NInf else NaN)"
| "np_div1 NaN _ = NaN"
| "np_div1 _ NaN = NaN"
| "np_div1 (Fin x) PInf = Fin 0"
| "np_div1 (Fin x) NInf = Fin 0"
| "np_div1 PInf (Fin y) = (if 0 \<le> y then PInf else NInf)"
| "np_div1 NInf (Fin y) = (if 0 \<le> y then NInf else PInf)"
| "np_div1 PInf _ = NaN"
| "np_div1 NInf _ = NaN"

text \<open>
  A two-dimensional array (what \<open>loadmat\<close> and the feature extraction return): its
  shape and its entries. Only the entries inside the shape mean anything.
\<close>

record matrix =
  nrows :: nat
  ncols :: nat
  elem :: "nat \<Rightarrow> nat \<Rightarrow> npfloat"

text \<open>numpy broadcasting of one axis: equal sizes, or one of them is 1.\<close>

definition broadcast_dim :: "nat \<Rightarrow> nat \<Rightarrow> nat option" where
  "broadcast_dim a b =
     (if a = b then Some a else if a = 1 then Some b else if b = 1 then Some a else None)"

definition bc_elem :: "matrix \<Rightarrow> nat \<Rightarrow> nat \<Rightarrow> npfloat" where
  "bc_elem m i j = elem m (if nrows m = 1 then 0 else i) (if ncols m = 1 then 0 else j)"

definition np_binop :: "(npfloat \<Rightarrow> npfloat \<Rightarrow> npfloat) \<Rightarrow> matrix \<Rightarrow> matrix \<Rightarrow> error + matrix" where
  "np_binop f a b =
     (case (broadcast_dim (nrows a) (nrows b), broadcast_dim (ncols a) (ncols b)) of
        (Some r, Some c) \<Rightarrow>
          Inr \<lparr>nrows = r, ncols = c, elem = (\<lambda>i j. f (bc_elem a i j) (bc_elem b i j))\<rparr>
      | _ \<Rightarrow> Inl ValueError)"

definition np_add :: "matrix \<Rightarrow> matrix \<Rightarrow> error + matrix" where
  "np_add = np_binop np_add1"

definition np_sub :: "matrix \<Rightarrow> matrix \<Rightarrow> error + matrix" where
  "np_sub = np_binop np_sub1"

definition np_div :: "matrix \<Rightarrow> matrix \<Rightarrow> error + matrix" where
  "np_div = np_binop np_div1"

definition np_log :: "matrix \<Rightarrow> matrix" where
  "np_log m = m\<lparr>elem := (\<lambda>i j. np_log1 (elem m i j))\<rparr>"

text \<open>\<open>np.concatenate\<close> of a list of one-dimensional arrays: an empty list is an error.\<close>

definition np_concatenate :: "'a list list \<Rightarrow> error + 'a list" where
  "np_concatenate xss = (if xss = [] then Inl ValueError else Inr (concat xss))"

section \<open>Python integers, slices, strings and paths\<close>

text \<open>\<open>int(x)\<close> of a float truncates towards zero.\<close>

definition py_int :: "real \<Rightarrow> int" where
  "py_int x = (if 0 \<le> x then \<lfloor>x\<rfloor> else \<lceil>x\<rceil>)"

text \<open>
  The product of two floats is the exact product rounded to the nearest float64: 53
  significant bits, a tie going to the even neighbour. \<open>float_exponent x\<close> is the
  \<open>e\<close> with \<open>2^e \<le> x < 2^(e+1)\<close> for a positive \<open>x\<close>, found from the bit length of an
  integer as \<open>int.bit_length\<close> gives it. Overflow and subnormal numbers are left out:
  the values rounded are taken to lie in the normal range of float64.
\<close>

fun bit_length :: "nat \<Rightarrow> nat" where
  "bit_length n = (if n = 0 then 0 else Suc (bit_length (n div 2)))"

declare bit_length.simps [simp del]

definition pow2 :: "int \<Rightarrow> real" where
  "pow2 k = (if 0 \<le> k then 2 ^ nat k else 1 / 2 ^ nat (- k))"

definition float_exponent :: "real \<Rightarrow> int" where
  "float_exponent x =
     (if 1 \<le> x then int (bit_length (nat \<lfloor>x\<rfloor>)) - 1
      else - int (bit_length (nat (\<lceil>1 / x\<rceil> - 1))))"

definition round_half_even :: "real \<Rightarrow> int" where
  "round_half_even q =
     (let r = \<lfloor>q\<rfloor>; f = q - real_of_int r
      in if f < 1 / 2 then r else if 1 / 2 < f then r + 1
         else if even r then r else r + 1)"

definition fl64_pos :: "real \<Rightarrow> real" where
  "fl64_pos a =
     real_of_int (round_half_even (a / pow2 (float_exponent a - 52))) *
       pow2 (float_exponent a - 52)"

definition fl64 :: "real \<Rightarrow> real" where
  "fl64 x = (if x = 0 then 0 else if 0 < x then fl64_pos x else - fl64_pos (- x))"

text \<open>\<open>xs[b:e]\<close>: a negative index counts from the end, and both ends are clipped.\<close>

definition clip_index :: "int \<Rightarrow> int \<Rightarrow> nat" where
  "clip_index n k = nat (max 0 (min n (if k < 0 then k + n else k)))"

definition py_slice :: "'a list \<Rightarrow> int \<Rightarrow> int \<Rightarrow> 'a list" where
  "py_slice xs b e =
     (let n = int (length xs); b' = clip_index n b; e' = clip_index n e
      in take (e' - b') (drop b' xs))"

text \<open>The \<open>%d\<close> conversion.\<close>

fun show_nat :: "nat \<Rightarrow> string" where
  "show_nat n =
     (if n < 10 then [''0123456789'' ! n]
      else show_nat (n div 10) @ [''0123456789'' ! (n mod 10)])"

declare show_nat.simps [simp del]

definition show_int :: "int \<Rightarrow> string" where
  "show_int k = (if k < 0 then CHR ''-'' # show_nat (nat (- k)) else show_nat (nat k))"

text \<open>\<open>os.path.join\<close> of two components and \<open>os.path.basename\<close> (POSIX).\<close>

definition path_join :: "string \<Rightarrow> string \<Rightarrow> string" where
  "path_join a b =
     (if b \<noteq> [] \<and> hd b = CHR ''/'' then b
      else if a = [] \<or> last a = CHR ''/'' then a @ b
      else a @ ''/'' @ b)"

definition basename :: "string \<Rightarrow> string" where
  "basename p = rev (takeWhile (\<lambda>c. c \<noteq> CHR ''/'') (rev p))"

section \<open>Files, collaborators and the state of a run\<close>

text \<open>
  What a file of a scratch directory holds: a feature record written by
  \<open>utils.write_htk\<close>, a text file, a MAT file (its named matrices), or bytes that
  \<open>loadmat\<close> cannot read.
\<close>

datatype artifact =
    HtkFile matrix int int
  | TextFile string
  | MatFile "(string \<times> matrix) list"
  | Corrupt

text \<open>
  The calls the orchestrator makes to the outside, in the order it makes them, with
  their arguments.
\<close>

datatype 'a event =
    Print string
  | Call_peak_normalization "'a list"
  | Call_mkdtemp string
  | Call_wav2logspec "'a list"
  | Call_write_htk string matrix int int
  | Write_text string string
  | Call_decode_model string string int bool int
  | Call_loadmat string
  | Call_logspec2wav matrix "'a list"
  | Call_rmtree string
  | Call_wav_write string int "'a list"

text \<open>
  The collaborators that are not in the file: reading a WAV file, the helpers of
  \<open>utils\<close> and the mask predictor \<open>decode_model\<close>. Each helper may raise. The predictor
  runs in a worker process over the scratch directory: it gets the directory's files and
  leaves the directory's files behind (with \<open>irm.mat\<close>, without it after a crash, or
  with anything else); a crash of the worker raises nothing in the orchestrator.
  The window arguments of \<open>wav2logspec\<close> and \<open>logspec2wav\<close> are constants
  (\<open>np.hamming(WL)\<close>, \<open>WL\<close>, \<open>WL2\<close>) and are left out.
\<close>

record 'a env =
  wav_read :: "string \<Rightarrow> error + int \<times> 'a list"
  peak_normalization :: "'a list \<Rightarrow> error + 'a list"
  wav2logspec :: "'a list \<Rightarrow> error + matrix"
  write_htk :: "matrix \<Rightarrow> int \<Rightarrow> int \<Rightarrow> error + artifact"
  decode_model ::
    "(string \<rightharpoonup> artifact) \<Rightarrow> string \<Rightarrow> string \<Rightarrow> int \<Rightarrow> bool \<Rightarrow> int \<Rightarrow> (string \<rightharpoonup> artifact)"
  logspec2wav :: "matrix \<Rightarrow> 'a list \<Rightarrow> error + 'a list"

text \<open>
  The state a run threads through: the supply of scratch directory names, the scratch
  directories that exist with their files, the WAV files written, and the trace of calls.
\<close>

record 'a state =
  tmp_counter :: nat
  scratch :: "nat \<rightharpoonup> (string \<rightharpoonup> artifact)"
  out_files :: "string \<rightharpoonup> int \<times> 'a list"
  trace :: "'a event list"

definition emit :: "'a event \<Rightarrow> 'a state \<Rightarrow> 'a state" where
  "emit e s = s\<lparr>trace := trace s @ [e]\<rparr>"

definition tmp_path :: "nat \<Rightarrow> string" where
  "tmp_path d = ''/tmp/tmp'' @ show_nat d"

text \<open>
  An event of a chunk's processing that touches files only inside the scratch directory
  \<open>dir\<close>, and neither creates nor removes a scratch directory.
\<close>

definition scratch_event :: "string \<Rightarrow> 'a event \<Rightarrow> bool" where
  "scratch_event dir ev =
     (case ev of
        Call_mkdtemp _ \<Rightarrow> False
      | Call_rmtree _ \<Rightarrow> False
      | Call_wav_write _ _ _ \<Rightarrow> False
      | Call_write_htk fn _ _ _ \<Rightarrow> fn = path_join dir ''noisy_normed_lps.htk''
      | Write_text fn _ \<Rightarrow> fn = path_join dir ''noisy_normed_lps.scp''
      | Call_decode_model scp_fn out_dir _ _ _ \<Rightarrow>
          scp_fn = path_join dir ''noisy_normed_lps.scp'' \<and> out_dir = dir
      | Call_loadmat fn \<Rightarrow> fn = path_join dir ''irm.mat''
      | _ \<Rightarrow> True)"

text \<open>\<open>tempfile.mkdtemp()\<close>: a directory that did not exist, created empty.\<close>

definition mkdtemp :: "'a state \<Rightarrow> nat \<times> 'a state" where
  "mkdtemp s =
     (let d = tmp_counter s
      in (d, emit (Call_mkdtemp (tmp_path d))
               (s\<lparr>tmp_counter := Suc d, scratch := (scratch s)(d \<mapsto> Map.empty)\<rparr>)))"

text \<open>\<open>shutil.rmtree(tmp_dir)\<close>: the directory and its files are gone.\<close>

definition rmtree :: "nat \<Rightarrow> 'a state \<Rightarrow> 'a state" where
  "rmtree d s = emit (Call_rmtree (tmp_path d)) (s\<lparr>scratch := (scratch s)(d := None)\<rparr>)"

definition dir_files :: "'a state \<Rightarrow> nat \<Rightarrow> (string \<rightharpoonup> artifact)" where
  "dir_files s d = (case scratch s d of None \<Rightarrow> Map.empty | Some fs \<Rightarrow> fs)"

definition put_file :: "nat \<Rightarrow> string \<Rightarrow> artifact \<Rightarrow> 'a state \<Rightarrow> 'a state" where
  "put_file d name a s = s\<lparr>scratch := (scratch s)(d \<mapsto> (dir_files s d)(name \<mapsto> a))\<rparr>"

text \<open>\<open>wav_io.write(output_wav, SR, data_se)\<close>.\<close>

definition wav_write :: "string \<Rightarrow> int \<Rightarrow> 'a list \<Rightarrow> 'a state \<Rightarrow> 'a state" where
  "wav_write fn r data s =
     emit (Call_wav_write fn r data) (s\<lparr>out_files := (out_files s)(fn \<mapsto> (r, data))\<rparr>)"

text \<open>\<open>sio.loadmat(irm_fn)['IRM']\<close> over the files of the scratch directory.\<close>

definition load_irm :: "(string \<rightharpoonup> artifact) \<Rightarrow> error + matrix" where
  "load_irm files =
     (case files ''irm.mat'' of
        None \<Rightarrow> Inl IOError
      | Some (MatFile vars) \<Rightarrow>
          (case map_of vars ''IRM'' of None \<Rightarrow> Inl KeyError | Some m \<Rightarrow> Inr m)
      | Some _ \<Rightarrow> Inl ValueError)"

section \<open>The steps of main\_denoising\<close>

text \<open>The messages printed.\<close>

definition skip_msg :: "string \<Rightarrow> string" where
  "skip_msg wav =
     ''ERROR: Sample rate of file '' @ [CHR 0x22] @ wav @ [CHR 0x22] @ '' is not '' @
     show_int SR @ '' Hz. Skipping.''"

definition processing_msg :: "string \<Rightarrow> int \<Rightarrow> int \<Rightarrow> string" where
  "processing_msg wav i total_chunks =
     ''Processing file: '' @ wav @ '', segment: '' @ show_int i @ ''/'' @
     show_int total_chunks @ ''.''"

definition finished_msg :: "string \<Rightarrow> string" where
  "finished_msg wav = ''Finished processing file '' @ [CHR 0x22] @ wav @ [CHR 0x22] @ ''.''"

text \<open>Line 113: \<open>normed_noisy = (noisy_htkdata - mean) / var\<close>.\<close>

definition mvn :: "matrix \<Rightarrow> matrix \<Rightarrow> matrix \<Rightarrow> error + matrix" where
  "mvn noisy_htkdata mean var =
     (case np_sub noisy_htkdata mean of Inl e \<Rightarrow> Inl e | Inr d \<Rightarrow> np_div d var)"

text \<open>Line 120: \<open>cntk_len = noisy_htkdata.shape[0] - 1\<close>.\<close>

definition cntk_len_of :: "matrix \<Rightarrow> int" where
  "cntk_len_of noisy_htkdata = int (nrows noisy_htkdata) - 1"

text \<open>Lines 121-122: \<open>'irm=%s[0,%d]\n' % (noisy_normed_lps_fn, cntk_len)\<close>.\<close>

definition index_record :: "string \<Rightarrow> int \<Rightarrow> string" where
  "index_record noisy_normed_lps_fn cntk_len =
     ''irm='' @ noisy_normed_lps_fn @ ''[0,'' @ show_int cntk_len @ '']'' @ [CHR 0x0A]"

text \<open>Line 137: \<open>masked_lps = noisy_htkdata + np.log(irm)\<close>.\<close>

definition mask_lps :: "matrix \<Rightarrow> matrix \<Rightarrow> error + matrix" where
  "mask_lps noisy_htkdata irm = np_add noisy_htkdata (np_log irm)"

text \<open>
  Lines 82-84: the chunk length and the number of chunks. \<open>truncate_minutes\<close> is the
  value of the float that the command line gave; line 82 multiplies it by the rate and
  then by 60, each product rounded to a float64, and \<open>int\<close> truncates the result.
\<close>

definition chunk_length_of :: "real \<Rightarrow> int \<Rightarrow> int" where
  "chunk_length_of truncate_minutes rate =
     py_int (fl64 (fl64 (truncate_minutes * real_of_int rate) * 60))"

definition total_chunks_of :: "nat \<Rightarrow> int \<Rightarrow> error + int" where
  "total_chunks_of n chunk_length =
     (if chunk_length = 0 then Inl ZeroDivisionError
      else Inr (\<lceil>real n / real_of_int chunk_length\<rceil>))"

text \<open>Line 86: \<open>range(1, total_chunks + 1)\<close>, the chunk numbers the loop goes through.\<close>

definition chunk_numbers :: "int \<Rightarrow> int list" where
  "chunk_numbers total_chunks = [1..total_chunks]"

text \<open>Lines 90-92: the samples of chunk \<open>i\<close>.\<close>

definition chunk_of :: "'a list \<Rightarrow> int \<Rightarrow> int \<Rightarrow> 'a list" where
  "chunk_of wav_data chunk_length i =
     (let bi = (i - 1) * chunk_length; ei = bi + chunk_length in py_slice wav_data bi ei)"

text \<open>Lines 101-143: the enhancement of a chunk that is long enough.\<close>

definition enhance ::
  "'a env \<Rightarrow> matrix \<Rightarrow> matrix \<Rightarrow> bool \<Rightarrow> int \<Rightarrow> nat \<Rightarrow> 'a list \<Rightarrow> 'a state
     \<Rightarrow> (error + 'a list) \<times> 'a state" where
  "enhance env mean var use_gpu gpu_id d temp s0 =
     (let tmp_dir = tmp_path d;
          noisy_normed_lps_fn = path_join tmp_dir ''noisy_normed_lps.htk'';
          noisy_normed_lps_scp_fn = path_join tmp_dir ''noisy_normed_lps.scp'';
          irm_fn = path_join tmp_dir ''irm.mat'';
          s1 = emit (Call_wav2logspec temp) s0
      in case wav2logspec env temp of
           Inl e \<Rightarrow> (Inl e, s1)
         | Inr noisy_htkdata \<Rightarrow>
      (case mvn noisy_htkdata mean var of
           Inl e \<Rightarrow> (Inl e, s1)
         | Inr normed_noisy \<Rightarrow>
      (let s2 = emit (Call_write_htk noisy_normed_lps_fn normed_noisy SR 9) s1
       in case write_htk env normed_noisy SR 9 of
           Inl e \<Rightarrow> (Inl e, s2)
         | Inr htk \<Rightarrow>
      (let s3 = put_file d ''noisy_normed_lps.htk'' htk s2;
           cntk_len = cntk_len_of noisy_htkdata;
           scp = index_record noisy_normed_lps_fn cntk_len;
           s4 = emit (Write_text noisy_normed_lps_scp_fn scp)
                  (put_file d ''noisy_normed_lps.scp'' (TextFile scp) s3);
           s5 = emit (Call_decode_model noisy_normed_lps_scp_fn tmp_dir NFREQS use_gpu gpu_id) s4;
           s6 = s5\<lparr>scratch := (scratch s5)(d \<mapsto>
                  decode_model env (dir_files s5 d) noisy_normed_lps_scp_fn tmp_dir NFREQS
                    use_gpu gpu_id)\<rparr>;
           s7 = emit (Call_loadmat irm_fn) s6
       in case load_irm (dir_files s7 d) of
           Inl e \<Rightarrow> (Inl e, s7)
         | Inr irm \<Rightarrow>
      (case mask_lps noisy_htkdata irm of
           Inl e \<Rightarrow> (Inl e, s7)
         | Inr masked_lps \<Rightarrow>
      (let s8 = emit (Call_logspec2wav masked_lps temp) s7
       in case logspec2wav env masked_lps temp of
           Inl e \<Rightarrow> (Inl e, s8)
         | Inr wave_recon \<Rightarrow> (Inr wave_recon, s8)))))))"

text \<open>Lines 89-143: the body of the \<open>try\<close> block; \<open>data_se\<close> is returned extended.\<close>

definition chunk_body ::
  "'a env \<Rightarrow> matrix \<Rightarrow> matrix \<Rightarrow> bool \<Rightarrow> int \<Rightarrow> string \<Rightarrow> 'a list \<Rightarrow> int \<Rightarrow> int \<Rightarrow> int
     \<Rightarrow> nat \<Rightarrow> 'a list list \<Rightarrow> 'a state \<Rightarrow> (error + 'a list list) \<times> 'a state" where
  "chunk_body env mean var use_gpu gpu_id wav wav_data chunk_length total_chunks i d data_se s =
     (let temp = chunk_of wav_data chunk_length i;
          s1 = emit (Print (processing_msg wav i total_chunks)) s
      in if int (length temp) < WL2 then (Inr (data_se @ [temp]), s1)
         else (case enhance env mean var use_gpu gpu_id d temp s1 of
                 (Inl e, s2) \<Rightarrow> (Inl e, s2)
               | (Inr wave_recon, s2) \<Rightarrow> (Inr (data_se @ [wave_recon]), s2)))"

text \<open>
  Lines 87-145: one iteration of the chunk loop. The \<open>finally\<close> clause runs after the
  body whatever the body did: after its end, after \<open>continue\<close> and after an exception.
\<close>

definition process_chunk ::
  "'a env \<Rightarrow> matrix \<Rightarrow> matrix \<Rightarrow> bool \<Rightarrow> int \<Rightarrow> string \<Rightarrow> 'a list \<Rightarrow> int \<Rightarrow> int \<Rightarrow> int
     \<Rightarrow> 'a list list \<Rightarrow> 'a state \<Rightarrow> (error + 'a list list) \<times> 'a state" where
  "process_chunk env mean var use_gpu gpu_id wav wav_data chunk_length total_chunks i data_se s =
     (let (d, s1) = mkdtemp s;
          (r, s2) = chunk_body env mean var use_gpu gpu_id wav wav_data chunk_length
                      total_chunks i d data_se s1
      in (r, rmtree d s2))"

text \<open>Line 86: the loop over the chunk numbers; an exception leaves it.\<close>

fun chunk_loop ::
  "'a env \<Rightarrow> matrix \<Rightarrow> matrix \<Rightarrow> bool \<Rightarrow> int \<Rightarrow> string \<Rightarrow> 'a list \<Rightarrow> int \<Rightarrow> int \<Rightarrow> int list
     \<Rightarrow> 'a list list \<Rightarrow> 'a state \<Rightarrow> (error + 'a list list) \<times> 'a state" where
  "chunk_loop env mean var use_gpu gpu_id wav wav_data chunk_length total_chunks [] data_se s =
     (Inr data_se, s)"
| "chunk_loop env mean var use_gpu gpu_id wav wav_data chunk_length total_chunks (i # is) data_se s =
     (case process_chunk env mean var use_gpu gpu_id wav wav_data chunk_length total_chunks i
             data_se s of
        (Inl e, s') \<Rightarrow> (Inl e, s')
      | (Inr data_se', s') \<Rightarrow>
          chunk_loop env mean var use_gpu gpu_id wav wav_data chunk_length total_chunks is
            data_se' s')"

text \<open>Lines 71-150: the body of the loop over the files, for one file.\<close>

definition denoise_file ::
  "'a env \<Rightarrow> matrix \<Rightarrow> matrix \<Rightarrow> string \<Rightarrow> bool \<Rightarrow> int \<Rightarrow> real \<Rightarrow> string \<Rightarrow> 'a state
     \<Rightarrow> (error + unit) \<times> 'a state" where
  "denoise_file env mean var out_dir use_gpu gpu_id truncate_minutes wav s =
     (case wav_read env wav of
        Inl e \<Rightarrow> (Inl e, s)
      | Inr (rate, raw) \<Rightarrow>
          if rate \<noteq> SR then (Inr (), emit (Print (skip_msg wav)) s)
          else
            (let s1 = emit (Call_peak_normalization raw) s
             in case peak_normalization env raw of
                  Inl e \<Rightarrow> (Inl e, s1)
                | Inr wav_data \<Rightarrow>
            (let chunk_length = chunk_length_of truncate_minutes rate
             in case total_chunks_of (length wav_data) chunk_length of
                  Inl e \<Rightarrow> (Inl e, s1)
                | Inr total_chunks \<Rightarrow>
            (case chunk_loop env mean var use_gpu gpu_id wav wav_data chunk_length total_chunks
                    (chunk_numbers total_chunks) [] s1 of
                  (Inl e, s2) \<Rightarrow> (Inl e, s2)
                | (Inr data_se, s2) \<Rightarrow>
            (case np_concatenate data_se of
                  Inl e \<Rightarrow> (Inl e, s2)
                | Inr out \<Rightarrow>
            (let bn = basename wav;
                 output_wav = path_join out_dir bn;
                 s3 = wav_write output_wav SR out s2
             in (Inr (), emit (Print (finished_msg wav)) s3)))))))"

text \<open>
  Lines 70-150: the loop over the files. Nothing catches an exception of a file's body,
  so it leaves the loop and the function. What comes before the loop is taken as done:
  the output directory exists (lines 61-62), and \<open>mean\<close> and \<open>var\<close> are the statistics
  that lines 65-67 loaded. Failures of the operating system in \<open>mkdtemp\<close>, \<open>open\<close>,
  \<open>rmtree\<close> and \<open>wav_io.write\<close> are not modelled.
\<close>

fun file_loop ::
  "'a env \<Rightarrow> matrix \<Rightarrow> matrix \<Rightarrow> string \<Rightarrow> bool \<Rightarrow> int \<Rightarrow> real \<Rightarrow> string list \<Rightarrow> 'a state
     \<Rightarrow> (error + unit) \<times> 'a state" where
  "file_loop env mean var out_dir use_gpu gpu_id truncate_minutes [] s = (Inr (), s)"
| "file_loop env mean var out_dir use_gpu gpu_id truncate_minutes (wav # wavs) s =
     (case denoise_file env mean var out_dir use_gpu gpu_id truncate_minutes wav s of
        (Inl e, s') \<Rightarrow> (Inl e, s')
      | (Inr _, s') \<Rightarrow> file_loop env mean var out_dir use_gpu gpu_id truncate_minutes wavs s')"

definition main_denoising ::
  "'a env \<Rightarrow> matrix \<Rightarrow> matrix \<Rightarrow> string list \<Rightarrow> string \<Rightarrow> bool \<Rightarrow> int \<Rightarrow> real \<Rightarrow> 'a state
     \<Rightarrow> (error + unit) \<times> 'a state" where
  "main_denoising env mean var wav_files out_dir use_gpu gpu_id truncate_minutes s =
     file_loop env mean var out_dir use_gpu gpu_id truncate_minutes wav_files s"

section \<open>A concrete run\<close>

text \<open>
  Collaborators for running the orchestrator on concrete inputs: four files (two at
  16000 Hz with 600 and 300 samples, one at 8000 Hz, one at 16000 Hz with no samples), a feature
  extraction that returns three frames, and a predictor that returns an all-ones mask.
  \<open>flaky_env\<close> is the same with a predictor whose worker crashes on its first call (the
  one over the scratch directory \<open>/tmp/tmp0\<close>) and leaves no \<open>irm.mat\<close>.
\<close>

definition demo_lps :: matrix where
  "demo_lps = \<lparr>nrows = 3, ncols = 257, elem = (\<lambda>i j. Fin 2)\<rparr>"

definition demo_irm :: matrix where
  "demo_irm = \<lparr>nrows = 3, ncols = 257, elem = (\<lambda>i j. Fin 1)\<rparr>"

text \<open>A mask with a zero in every bin, as a predictor may return for silence.\<close>

definition zero_irm :: matrix where
  "zero_irm = \<lparr>nrows = 3, ncols = 257, elem = (\<lambda>i j. Fin 0)\<rparr>"

definition demo_mean :: matrix where
  "demo_mean = \<lparr>nrows = 1, ncols = 257, elem = (\<lambda>i j. Fin 1)\<rparr>"

definition demo_var :: matrix where
  "demo_var = \<lparr>nrows = 1, ncols = 257, elem = (\<lambda>i j. Fin 2)\<rparr>"

definition demo_env :: "int env" where
  "demo_env =
     \<lparr>wav_read = (\<lambda>p. if p = ''in/a.wav'' then Inr (16000, replicate 600 1)
                     else if p = ''in/b.wav'' then Inr (8000, replicate 600 1)
                     else if p = ''in/c.wav'' then Inr (16000, replicate 300 1)
                     else if p = ''in/e.wav'' then Inr (16000, [])
                     else Inl IOError),
      peak_normalization = Inr,
      wav2logspec = (\<lambda>temp. Inr demo_lps),
      write_htk = (\<lambda>m samp_period parm_kind. Inr (HtkFile m samp_period parm_kind)),
      decode_model = (\<lambda>files scp_fn out_dir nfreqs use_gpu gpu_id.
                        files(''irm.mat'' \<mapsto> MatFile [(''IRM'', demo_irm)])),
      logspec2wav = (\<lambda>masked_lps temp. Inr temp)\<rparr>"

definition flaky_env :: "int env" where
  "flaky_env =
     demo_env\<lparr>decode_model := (\<lambda>files scp_fn out_dir nfreqs use_gpu gpu_id.
                  if out_dir = ''/tmp/tmp0'' then files
                  else files(''irm.mat'' \<mapsto> MatFile [(''IRM'', demo_irm)]))\<rparr>"

definition init_state :: "'a state" where
  "init_state = \<lparr>tmp_counter = 0, scratch = Map.empty, out_files = Map.empty, trace = []\<rparr>"

section \<open>Float64 products, evaluated\<close>

lemma bit_length_eval [simp]:
  "bit_length 0 = 0"
  "bit_length (Suc 0) = Suc 0"
  "bit_length (numeral k) = Suc (bit_length (numeral k div 2))"
  by (subst bit_length.simps, simp)+

lemmas float_defs = chunk_length_of_def py_int_def fl64_def fl64_pos_def float_exponent_def
  round_half_even_def pow2_def Let_def

text \<open>
  Roundings as float64 makes them: a value that is a float already, the floats nearest to
  1/10 and 1/3, and two ties above \<open>2^53\<close>, each going to the even neighbour.
\<close>

lemma fl64_examples:
  "fl64 (125 / 16) = 125 / 16"
  "fl64 (1 / 10) = 3602879701896397 / 36028797018963968"
  "fl64 (1 / 3) = 6004799503160661 / 18014398509481984"
  "fl64 9007199254740993 = 9007199254740992"
  "fl64 9007199254740995 = 9007199254740996"
  by (simp_all add: float_defs)

text \<open>
  Chunk lengths. The float nearest to 0.3 is 5404319552844595 / 2^54; its exact product
  with 960000 is just under 288000, and the two rounded products of line 82 give 288000.
\<close>

lemma chunk_length_examples:
  "chunk_length_of 10 16000 = 9600000"
  "chunk_length_of (1 / 2048) 16000 = 468"
  "chunk_length_of 0 16000 = 0"
  "chunk_length_of (1 / 1048576) 16000 = 0"
  "chunk_length_of (5404319552844595 / 18014398509481984) 16000 = 288000"
  by (simp_all add: float_defs)

section \<open>How the state changes\<close>

lemma emit_simps [simp]:
  "tmp_counter (emit e s) = tmp_counter s"
  "scratch (emit e s) = scratch s"
  "out_files (emit e s) = out_files s"
  "trace (emit e s) = trace s @ [e]"
  by (simp_all add: emit_def)

lemma put_file_simps [simp]:
  "tmp_counter (put_file d n a s) = tmp_counter s"
  "out_files (put_file d n a s) = out_files s"
  "trace (put_file d n a s) = trace s"
  "(scratch (put_file d n a s))(d := None) = (scratch s)(d := None)"
  by (simp_all add: put_file_def)

lemma enhance_frame:
  assumes "enhance env mean var use_gpu gpu_id d temp s = (r, s')"
  shows "tmp_counter s' = tmp_counter s \<and> out_files s' = out_files s \<and>
         (scratch s')(d := None) = (scratch s)(d := None) \<and>
         (\<exists>evs. trace s' = trace s @ evs \<and>
                (\<forall>ev\<in>set evs. scratch_event (tmp_path d) ev))"
  using assms
  by (auto simp: enhance_def Let_def scratch_event_def split: sum.splits)

lemma chunk_body_frame:
  assumes "chunk_body env mean var use_gpu gpu_id wav wav_data c tc i d data_se s = (r, s')"
  shows "tmp_counter s' = tmp_counter s \<and> out_files s' = out_files s \<and>
         (scratch s')(d := None) = (scratch s)(d := None) \<and>
         (\<exists>evs. trace s' = trace s @ evs \<and>
                (\<forall>ev\<in>set evs. scratch_event (tmp_path d) ev))"
proof (cases "int (length (chunk_of wav_data c i)) < WL2")
  case True
  then show ?thesis using assms by (auto simp: chunk_body_def Let_def scratch_event_def)
next
  case False
  obtain r1 s1 where e: "enhance env mean var use_gpu gpu_id d (chunk_of wav_data c i)
      (emit (Print (processing_msg wav i tc)) s) = (r1, s1)"
    by (cases "enhance env mean var use_gpu gpu_id d (chunk_of wav_data c i)
      (emit (Print (processing_msg wav i tc)) s)")
  have s': "s' = s1"
    using assms False e by (auto simp: chunk_body_def Let_def split: sum.splits)
  from enhance_frame[OF e] show ?thesis unfolding s' by (auto simp: scratch_event_def)
qed

lemma process_chunk_frame:
  assumes "process_chunk env mean var use_gpu gpu_id wav wav_data c tc i data_se s = (r, s')"
  shows "tmp_counter s' = Suc (tmp_counter s) \<and> out_files s' = out_files s \<and>
         scratch s' = (scratch s)(tmp_counter s := None) \<and>
         (\<exists>evs. trace s' = trace s @ [Call_mkdtemp (tmp_path (tmp_counter s))] @ evs @
                    [Call_rmtree (tmp_path (tmp_counter s))] \<and>
                (\<forall>ev\<in>set evs. scratch_event (tmp_path (tmp_counter s)) ev))"
proof -
  define d where "d = tmp_counter s"
  define s1 where "s1 = emit (Call_mkdtemp (tmp_path d))
                          (s\<lparr>tmp_counter := Suc d, scratch := (scratch s)(d \<mapsto> Map.empty)\<rparr>)"
  obtain r2 s2 where b: "chunk_body env mean var use_gpu gpu_id wav wav_data c tc i d data_se s1
                         = (r2, s2)"
    by (cases "chunk_body env mean var use_gpu gpu_id wav wav_data c tc i d data_se s1")
  have res: "r = r2" "s' = rmtree d s2"
    using assms b by (simp_all add: process_chunk_def mkdtemp_def Let_def d_def s1_def)
  from chunk_body_frame[OF b] obtain evs where
    f: "tmp_counter s2 = tmp_counter s1" "out_files s2 = out_files s1"
       "(scratch s2)(d := None) = (scratch s1)(d := None)"
       "trace s2 = trace s1 @ evs"
       "\<forall>ev\<in>set evs. scratch_event (tmp_path d) ev"
    by auto
  have "trace s' = trace s @ [Call_mkdtemp (tmp_path d)] @ evs @ [Call_rmtree (tmp_path d)]"
    by (simp add: res rmtree_def f s1_def)
  moreover have "scratch s' = (scratch s)(d := None)"
    by (simp add: res rmtree_def f s1_def)
  moreover have "tmp_counter s' = Suc d" "out_files s' = out_files s"
    by (simp_all add: res rmtree_def f s1_def)
  ultimately show ?thesis using f(5) unfolding d_def by blast
qed

section \<open>Slices and chunk arithmetic\<close>

lemma take_min_length: "take (min (length ys) k) ys = take k ys"
  by (cases "k \<le> length ys") (simp_all add: min_def)

lemma clip_index_nonneg: "0 \<le> k \<Longrightarrow> clip_index (int m) k = min m (nat k)"
  unfolding clip_index_def by (auto simp: min_def max_def)

lemma py_slice_nonneg:
  assumes "0 \<le> b" "b \<le> e"
  shows "py_slice xs b e = take (nat e - nat b) (drop (nat b) xs)"
proof -
  have e0: "0 \<le> e" using assms by simp
  have "take (min (length xs) (nat e) - min (length xs) (nat b)) (drop (min (length xs) (nat b)) xs)
        = take (nat e - nat b) (drop (nat b) xs)"
  proof (cases "length xs \<le> nat b")
    case True
    then show ?thesis by simp
  next
    case False
    then have b: "min (length xs) (nat b) = nat b" by simp
    have "min (length xs) (nat e) - nat b = min (length xs - nat b) (nat e - nat b)"
      by arith
    then have "min (length xs) (nat e) - nat b = min (length (drop (nat b) xs)) (nat e - nat b)"
      by simp
    then show ?thesis unfolding b by (simp only: take_min_length)
  qed
  then show ?thesis
    by (simp add: py_slice_def Let_def clip_index_nonneg assms(1) e0)
qed

lemma chunk_of_nat:
  assumes "1 \<le> c" "1 \<le> i"
  shows "chunk_of xs c i = take (nat c) (drop (nat ((i - 1) * c)) xs)"
proof -
  have bi0: "0 \<le> (i - 1) * c" using assms by simp
  have "nat ((i - 1) * c + c) - nat ((i - 1) * c) = nat c"
    using bi0 assms(1) by linarith
  then show ?thesis
    using assms bi0 by (simp add: chunk_of_def Let_def py_slice_nonneg)
qed

lemma concat_chunks_nat:
  "0 < c \<Longrightarrow> length xs \<le> k * c \<Longrightarrow>
   concat (map (\<lambda>i. take c (drop (i * c) xs)) [0..<k]) = xs"
proof (induction k arbitrary: xs)
  case 0
  then show ?case by simp
next
  case (Suc k)
  have split: "[0..<Suc k] = 0 # map Suc [0..<k]"
    by (simp add: upt_conv_Cons map_Suc_upt del: upt_Suc)
  have "length (drop c xs) \<le> k * c" using Suc.prems by simp
  then have ih: "concat (map (\<lambda>i. take c (drop (i * c) (drop c xs))) [0..<k]) = drop c xs"
    using Suc.IH Suc.prems(1) by blast
  have "concat (map (\<lambda>i. take c (drop (i * c) xs)) [0..<Suc k])
        = take c xs @ concat (map (\<lambda>i. take c (drop (Suc i * c) xs)) [0..<k])"
    unfolding split by (simp add: comp_def)
  also have "\<dots> = take c xs @ concat (map (\<lambda>i. take c (drop (i * c) (drop c xs))) [0..<k])"
    by (simp add: add.commute)
  also have "\<dots> = xs" by (simp only: ih append_take_drop_id)
  finally show ?case .
qed

lemma upto_as_upt: "[1..int k] = map (\<lambda>i. int i + 1) [0..<k]"
proof (induction k)
  case 0
  then show ?case by simp
next
  case (Suc k)
  have "[1..int (Suc k)] = [1..int k] @ [int k + 1]"
    by (simp add: upto_rec2 add.commute)
  then show ?case using Suc by simp
qed

lemma total_chunks_bounds:
  assumes "1 \<le> c"
  shows "total_chunks_of n c = Inr \<lceil>real n / real_of_int c\<rceil>"
    and "0 \<le> \<lceil>real n / real_of_int c\<rceil>"
    and "int n \<le> \<lceil>real n / real_of_int c\<rceil> * c"
    and "0 < n \<Longrightarrow> (\<lceil>real n / real_of_int c\<rceil> - 1) * c < int n"
    and "n = 0 \<Longrightarrow> \<lceil>real n / real_of_int c\<rceil> = 0"
proof -
  let ?t = "\<lceil>real n / real_of_int c\<rceil>"
  have c0: "0 < real_of_int c" using assms by simp
  show "total_chunks_of n c = Inr ?t" using assms by (simp add: total_chunks_of_def)
  have "0 \<le> real n / real_of_int c" using c0 by simp
  then have "- 1 < real n / real_of_int c" by linarith
  then show "0 \<le> ?t" by (simp only: zero_le_ceiling)
  have "real n \<le> real_of_int ?t * real_of_int c"
    using le_of_int_ceiling[of "real n / real_of_int c"]
    unfolding pos_divide_le_eq[OF c0] .
  then have "real_of_int (int n) \<le> real_of_int (?t * c)" by simp
  then show "int n \<le> ?t * c" by (simp only: of_int_le_iff)
  show "(?t - 1) * c < int n" if "0 < n"
  proof -
    have "real_of_int ?t - 1 < real n / real_of_int c" by linarith
    then have "(real_of_int ?t - 1) * real_of_int c < real n"
      unfolding pos_less_divide_eq[OF c0] .
    then have "real_of_int ((?t - 1) * c) < real_of_int (int n)" by simp
    then show ?thesis by (simp only: of_int_less_iff)
  qed
  show "?t = 0" if "n = 0" using that by simp
qed

lemma chunk_of_index:
  assumes "1 \<le> c"
  shows "chunk_of xs c (int i + 1) = take (nat c) (drop (i * nat c) xs)"
proof -
  have "nat (int i * c) = i * nat c"
    using assms by (simp add: nat_mult_distrib)
  then show ?thesis
    using chunk_of_nat[OF assms, of "int i + 1" xs] by simp
qed

lemma concat_chunks:
  assumes "1 \<le> c"
  shows "concat (map (chunk_of xs c) [1..\<lceil>real (length xs) / real_of_int c\<rceil>]) = xs"
proof -
  let ?t = "\<lceil>real (length xs) / real_of_int c\<rceil>"
  define k where "k = nat ?t"
  have t: "?t = int k"
    using total_chunks_bounds(2)[OF assms, of "length xs"] by (simp add: k_def)
  have "int (length xs) \<le> int k * c"
    using total_chunks_bounds(3)[OF assms, of "length xs"] t by simp
  then have "int (length xs) \<le> int (k * nat c)"
    using assms by simp
  then have le: "length xs \<le> k * nat c" by (simp only: of_nat_le_iff)
  have "map (chunk_of xs c) [1..int k] = map (\<lambda>i. take (nat c) (drop (i * nat c) xs)) [0..<k]"
    by (simp add: upto_as_upt comp_def chunk_of_index[OF assms])
  then show ?thesis
    unfolding t using concat_chunks_nat[of "nat c" xs k] le assms by simp
qed

lemma chunk_lengths:
  assumes "1 \<le> c" "1 \<le> i" "i \<le> \<lceil>real (length xs) / real_of_int c\<rceil>"
  shows "i < \<lceil>real (length xs) / real_of_int c\<rceil> \<Longrightarrow> int (length (chunk_of xs c i)) = c"
    and "1 \<le> length (chunk_of xs c i)"
    and "int (length (chunk_of xs c i)) \<le> c"
proof -
  let ?t = "\<lceil>real (length xs) / real_of_int c\<rceil>"
  let ?n = "length xs"
  define bi where "bi = (i - 1) * c"
  have bi0: "0 \<le> bi" using assms by (simp add: bi_def)
  have n0: "0 < ?n"
    using assms total_chunks_bounds(5)[OF assms(1), of ?n] by (cases "?n = 0") auto
  have lt: "(?t - 1) * c < int ?n"
    by (rule total_chunks_bounds(4)[OF assms(1) n0])
  have "(i - 1) * c \<le> (?t - 1) * c"
    using assms by (simp add: mult_right_mono)
  then have pos: "bi < int ?n" using lt unfolding bi_def by linarith
  have l: "length (chunk_of xs c i) = min (?n - nat bi) (nat c)"
    by (simp add: chunk_of_nat[OF assms(1,2)] bi_def)
  have len: "int (length (chunk_of xs c i)) = min c (int ?n - bi)"
    unfolding l using pos bi0 assms(1) by linarith
  show "int (length (chunk_of xs c i)) \<le> c" unfolding len by simp
  have "1 \<le> int (length (chunk_of xs c i))" unfolding len using pos assms(1) by simp
  then show "1 \<le> length (chunk_of xs c i)" by simp
  show "int (length (chunk_of xs c i)) = c" if "i < ?t"
  proof -
    have "i * c \<le> (?t - 1) * c" using that assms(1) by (simp add: mult_right_mono)
    then have "i * c < int ?n" using lt by linarith
    then have "c \<le> int ?n - bi" by (simp add: bi_def algebra_simps)
    then show ?thesis unfolding len by simp
  qed
qed

section \<open>What the loops return\<close>

lemma enhance_out:
  assumes "enhance env mean var use_gpu gpu_id d temp s = (Inr w, s')"
  shows "\<exists>m. logspec2wav env m temp = Inr w"
  using assms by (auto simp: enhance_def Let_def split: sum.splits)

lemma process_chunk_out:
  assumes "process_chunk env mean var use_gpu gpu_id wav wav_data c tc i data_se s = (Inr ds, s')"
  shows "\<exists>w. ds = data_se @ [w] \<and>
             (if int (length (chunk_of wav_data c i)) < WL2 then w = chunk_of wav_data c i
              else (\<exists>m. logspec2wav env m (chunk_of wav_data c i) = Inr w))"
proof (cases "int (length (chunk_of wav_data c i)) < WL2")
  case True
  then show ?thesis
    using assms by (auto simp: process_chunk_def chunk_body_def Let_def split_def)
next
  case False
  let ?s1 = "emit (Print (processing_msg wav i tc)) (snd (mkdtemp s))"
  let ?e = "enhance env mean var use_gpu gpu_id (fst (mkdtemp s)) (chunk_of wav_data c i) ?s1"
  obtain r1 s1 where e: "?e = (r1, s1)" by (cases ?e)
  from assms False e obtain w where w: "r1 = Inr w" "ds = data_se @ [w]"
    by (auto simp: process_chunk_def chunk_body_def Let_def split_def split: sum.splits)
  from enhance_out[OF e[unfolded w(1)]] w(2) False show ?thesis by auto
qed

lemma chunk_loop_outs:
  assumes "chunk_loop env mean var use_gpu gpu_id wav wav_data c tc is data_se s = (Inr ds, s')"
  shows "\<exists>outs. ds = data_se @ outs \<and>
           list_all2 (\<lambda>i w. if int (length (chunk_of wav_data c i)) < WL2
                             then w = chunk_of wav_data c i
                             else (\<exists>m. logspec2wav env m (chunk_of wav_data c i) = Inr w))
             is outs"
  using assms
proof (induction "is" arbitrary: data_se s)
  case Nil
  then show ?case by simp
next
  case (Cons i "is")
  let ?p = "process_chunk env mean var use_gpu gpu_id wav wav_data c tc i data_se s"
  obtain r s1 where p: "?p = (r, s1)" by (cases ?p)
  from Cons.prems p obtain ds1 where r: "r = Inr ds1"
    and l: "chunk_loop env mean var use_gpu gpu_id wav wav_data c tc is ds1 s1 = (Inr ds, s')"
    by (cases r) auto
  from process_chunk_out[OF p[unfolded r]] obtain w where
    w: "ds1 = data_se @ [w]"
       "if int (length (chunk_of wav_data c i)) < WL2 then w = chunk_of wav_data c i
        else (\<exists>m. logspec2wav env m (chunk_of wav_data c i) = Inr w)"
    by blast
  from Cons.IH[OF l] obtain outs where
    o: "ds = ds1 @ outs"
       "list_all2 (\<lambda>i w. if int (length (chunk_of wav_data c i)) < WL2
                             then w = chunk_of wav_data c i
                             else (\<exists>m. logspec2wav env m (chunk_of wav_data c i) = Inr w))
             is outs"
    by blast
  have "ds = data_se @ (w # outs)" using o(1) w(1) by simp
  moreover have "list_all2 (\<lambda>i w. if int (length (chunk_of wav_data c i)) < WL2
                             then w = chunk_of wav_data c i
                             else (\<exists>m. logspec2wav env m (chunk_of wav_data c i) = Inr w))
             (i # is) (w # outs)"
    using o(2) w(2) by simp
  ultimately show ?case by blast
qed

lemma length_concat_all2:
  assumes "list_all2 (\<lambda>i w. length w = length (f i)) is outs"
  shows "length (concat outs) = length (concat (map f is))"
  using assms by (induction rule: list_all2_induct) simp_all

lemma denoise_file_success:
  assumes "denoise_file env mean var out_dir use_gpu gpu_id truncate_minutes wav s = (Inr u, s')"
      and "wav_read env wav = Inr (16000, raw)"
      and "peak_normalization env raw = Inr wav_data"
  shows "\<exists>tc ds s2.
           total_chunks_of (length wav_data) (chunk_length_of truncate_minutes 16000) = Inr tc \<and>
           chunk_loop env mean var use_gpu gpu_id wav wav_data
             (chunk_length_of truncate_minutes 16000) tc [1..tc] []
             (emit (Call_peak_normalization raw) s) = (Inr ds, s2) \<and>
           ds \<noteq> [] \<and>
           s' = emit (Print (finished_msg wav))
                  (wav_write (path_join out_dir (basename wav)) 16000 (concat ds) s2)"
  using assms
  by (auto simp: denoise_file_def chunk_numbers_def SR_def Let_def np_concatenate_def
           split: sum.splits prod.splits if_splits)

lemma nonpositive_chunk_length:
  assumes "c < 0"
  shows "\<lceil>real n / real_of_int c\<rceil> \<le> 0"
proof -
  have "real n / real_of_int c \<le> 0"
    using assms by (simp add: divide_nonneg_neg)
  then show ?thesis by (simp add: ceiling_le_zero)
qed


lemma all2_member:
  assumes "list_all2 P xs ys" and "x \<in> set xs"
  shows "\<exists>y\<in>set ys. P x y"
  using assms by (induction rule: list_all2_induct) auto

lemma concat_member:
  assumes "x \<in> set xss"
  shows "\<exists>pre post. concat xss = pre @ x @ post"
proof -
  from assms obtain ys zs where "xss = ys @ x # zs" by (meson split_list)
  then have "concat xss = concat ys @ x @ concat zs" by simp
  then show ?thesis by blast
qed

section \<open>Matrices and the enhancement of a chunk\<close>

lemma dir_files_simps [simp]:
  "dir_files (emit e s) d = dir_files s d"
  "dir_files (put_file d n a s) d = (dir_files s d)(n \<mapsto> a)"
  "dir_files (s\<lparr>scratch := m(d \<mapsto> fs)\<rparr>) d = fs"
  by (simp_all add: dir_files_def put_file_def emit_def)

lemma bc_elem_in_range: "i < nrows m \<Longrightarrow> j < ncols m \<Longrightarrow> bc_elem m i j = elem m i j"
  by (auto simp: bc_elem_def)

lemma np_binop_shape:
  assumes "np_binop f a b = Inr m"
  shows "broadcast_dim (nrows a) (nrows b) = Some (nrows m) \<and>
         broadcast_dim (ncols a) (ncols b) = Some (ncols m) \<and>
         elem m = (\<lambda>i j. f (bc_elem a i j) (bc_elem b i j))"
  using assms by (auto simp: np_binop_def split: option.splits)

lemma mask_lps_elem:
  assumes "mask_lps lps irm = Inr masked"
  shows "elem masked i j = np_add1 (bc_elem lps i j) (np_log1 (bc_elem irm i j))"
  using np_binop_shape[OF assms[unfolded mask_lps_def np_add_def]]
  by (simp add: bc_elem_def np_log_def)

lemma mask_lps_same_shape:
  assumes "nrows irm = nrows lps" and "ncols irm = ncols lps"
  shows "\<exists>masked. mask_lps lps irm = Inr masked \<and> nrows masked = nrows lps \<and>
           ncols masked = ncols lps \<and>
           (\<forall>i<nrows lps. \<forall>j<ncols lps.
              elem masked i j = np_add1 (elem lps i j) (np_log1 (elem irm i j)))"
  using assms
  by (simp add: mask_lps_def np_add_def np_binop_def broadcast_dim_def np_log_def
        bc_elem_in_range)

lemma mvn_elem:
  assumes "mvn lps mean var = Inr normed"
      and "nrows mean = 1" "ncols mean = ncols lps" "nrows var = 1" "ncols var = ncols lps"
  shows "nrows normed = nrows lps \<and> ncols normed = ncols lps \<and>
         (\<forall>i<nrows lps. \<forall>j<ncols lps.
            elem normed i j = np_div1 (np_sub1 (elem lps i j) (elem mean 0 j)) (elem var 0 j))"
proof -
  from assms(1) obtain d where d: "np_binop np_sub1 lps mean = Inr d"
    and n: "np_binop np_div1 d var = Inr normed"
    by (auto simp: mvn_def np_sub_def np_div_def split: sum.splits)
  from np_binop_shape[OF d] assms(2,3) have ds: "nrows d = nrows lps" "ncols d = ncols lps"
    and de: "elem d = (\<lambda>i j. np_sub1 (bc_elem lps i j) (bc_elem mean i j))"
    by (auto simp: broadcast_dim_def split: if_splits)
  from np_binop_shape[OF n] assms(4,5) ds have ns: "nrows normed = nrows lps"
    "ncols normed = ncols lps"
    and ne: "elem normed = (\<lambda>i j. np_div1 (bc_elem d i j) (bc_elem var i j))"
    by (auto simp: broadcast_dim_def split: if_splits)
  have "elem normed i j = np_div1 (np_sub1 (elem lps i j) (elem mean 0 j)) (elem var 0 j)"
    if "i < nrows lps" "j < ncols lps" for i j
  proof -
    have m: "bc_elem mean i j = elem mean 0 j" "bc_elem var i j = elem var 0 j"
      using that assms(2-5) by (auto simp: bc_elem_def)
    have "bc_elem d i j = elem d i j" using that ds by (simp add: bc_elem_in_range)
    then show ?thesis
      using that by (simp add: ne de m bc_elem_in_range)
  qed
  then show ?thesis using ns by blast
qed

lemma enhance_success:
  assumes "enhance env mean var use_gpu gpu_id d temp s = (Inr w, s')"
  shows "\<exists>lps normed htk irm masked.
           wav2logspec env temp = Inr lps \<and>
           mvn lps mean var = Inr normed \<and>
           write_htk env normed 16000 9 = Inr htk \<and>
           dir_files s' d =
             decode_model env
               ((dir_files s d)
                  (''noisy_normed_lps.htk'' \<mapsto> htk,
                   ''noisy_normed_lps.scp'' \<mapsto>
                     TextFile (index_record (path_join (tmp_path d) ''noisy_normed_lps.htk'')
                                 (cntk_len_of lps))))
               (path_join (tmp_path d) ''noisy_normed_lps.scp'') (tmp_path d) 257
               use_gpu gpu_id \<and>
           load_irm (dir_files s' d) = Inr irm \<and>
           mask_lps lps irm = Inr masked \<and>
           logspec2wav env masked temp = Inr w \<and>
           trace s' = trace s @
             [Call_wav2logspec temp,
              Call_write_htk (path_join (tmp_path d) ''noisy_normed_lps.htk'') normed 16000 9,
              Write_text (path_join (tmp_path d) ''noisy_normed_lps.scp'')
                (index_record (path_join (tmp_path d) ''noisy_normed_lps.htk'')
                   (cntk_len_of lps)),
              Call_decode_model (path_join (tmp_path d) ''noisy_normed_lps.scp'') (tmp_path d)
                257 use_gpu gpu_id,
              Call_loadmat (path_join (tmp_path d) ''irm.mat''),
              Call_logspec2wav masked temp]"
  using assms
  by (auto simp: enhance_def Let_def SR_def NFREQS_def split: sum.splits)


section \<open>Decimal numbers and scratch paths\<close>

lemma digit_char: "k < 10 \<Longrightarrow> ''0123456789'' ! k \<in> set ''0123456789''"
  by (rule nth_mem) simp

lemma show_nat_digits: "show_nat n \<noteq> [] \<and> set (show_nat n) \<subseteq> set ''0123456789''"
proof (induction n rule: show_nat.induct)
  case (1 n)
  show ?case
  proof (cases "n < 10")
    case True
    have "show_nat n = [''0123456789'' ! n]"
      by (subst show_nat.simps) (simp add: True)
    then show ?thesis using digit_char[OF True] by simp
  next
    case False
    have "n mod 10 < 10" by simp
    then have d: "''0123456789'' ! (n mod 10) \<in> set ''0123456789''" by (rule digit_char)
    have "show_nat n = show_nat (n div 10) @ [''0123456789'' ! (n mod 10)]"
      by (subst show_nat.simps) (simp add: False)
    then show ?thesis using 1[OF False] d by simp
  qed
qed

lemma show_int_no_newline: "CHR 0x0A \<notin> set (show_int k)"
proof -
  have "CHR 0x0A \<notin> set (show_nat n)" for n
    using show_nat_digits[of n] by auto
  then show ?thesis by (simp add: show_int_def)
qed

lemma tmp_path_chars: "tmp_path d \<noteq> [] \<and> last (tmp_path d) \<noteq> CHR ''/'' \<and>
    CHR 0x0A \<notin> set (tmp_path d)"
proof -
  have ne: "show_nat d \<noteq> []" and sub: "set (show_nat d) \<subseteq> set ''0123456789''"
    using show_nat_digits[of d] by simp_all
  have "last (show_nat d) \<in> set ''0123456789''" using ne sub last_in_set by blast
  then have "last (show_nat d) \<noteq> CHR ''/''" by auto
  moreover have "CHR 0x0A \<notin> set (show_nat d)" using sub by auto
  ultimately show ?thesis using ne by (simp add: tmp_path_def)
qed

lemma path_join_tmp:
  "path_join (tmp_path d) ''noisy_normed_lps.htk'' = tmp_path d @ ''/noisy_normed_lps.htk''"
  "path_join (tmp_path d) ''noisy_normed_lps.scp'' = tmp_path d @ ''/noisy_normed_lps.scp''"
  "path_join (tmp_path d) ''irm.mat'' = tmp_path d @ ''/irm.mat''"
  using tmp_path_chars[of d] by (simp_all add: path_join_def)

section \<open>How an exception travels\<close>

lemma chunk_loop_append:
  "chunk_loop env mean var use_gpu gpu_id wav wav_data c tc (is1 @ is2) data_se s =
     (case chunk_loop env mean var use_gpu gpu_id wav wav_data c tc is1 data_se s of
        (Inl e, s') \<Rightarrow> (Inl e, s')
      | (Inr ds, s') \<Rightarrow> chunk_loop env mean var use_gpu gpu_id wav wav_data c tc is2 ds s')"
proof (induction is1 arbitrary: data_se s)
  case Nil
  then show ?case by simp
next
  case (Cons i is1)
  show ?case
    by (cases "process_chunk env mean var use_gpu gpu_id wav wav_data c tc i data_se s")
       (auto simp: Cons.IH split: sum.splits)
qed

lemma chunk_loop_fails_at:
  assumes "1 \<le> k" and "k \<le> tc"
      and "chunk_loop env mean var use_gpu gpu_id wav wav_data c tc [1..k - 1] [] s = (Inr ds, s1)"
      and "process_chunk env mean var use_gpu gpu_id wav wav_data c tc k ds s1 = (Inl e, s2)"
  shows "chunk_loop env mean var use_gpu gpu_id wav wav_data c tc [1..tc] [] s = (Inl e, s2)"
proof -
  have "[1..tc] = [1..k - 1] @ [k..tc]"
    using assms(1,2) by (rule upto_split1)
  also have "[k..tc] = k # [k + 1..tc]"
    using assms(2) by (rule upto_rec1)
  finally have "[1..tc] = [1..k - 1] @ k # [k + 1..tc]" .
  then show ?thesis
    by (simp add: chunk_loop_append assms(3,4))
qed

lemma denoise_file_chunk_fail:
  assumes "wav_read env wav = Inr (16000, raw)"
      and "peak_normalization env raw = Inr wav_data"
      and "total_chunks_of (length wav_data) (chunk_length_of truncate_minutes 16000) = Inr tc"
      and "chunk_loop env mean var use_gpu gpu_id wav wav_data
             (chunk_length_of truncate_minutes 16000) tc [1..tc] []
             (emit (Call_peak_normalization raw) s) = (Inl e, s2)"
  shows "denoise_file env mean var out_dir use_gpu gpu_id truncate_minutes wav s = (Inl e, s2)"
  using assms by (simp add: denoise_file_def chunk_numbers_def SR_def Let_def)

lemma file_loop_fail:
  assumes "denoise_file env mean var out_dir use_gpu gpu_id truncate_minutes wav s = (Inl e, s2)"
  shows "main_denoising env mean var (wav # wavs) out_dir use_gpu gpu_id truncate_minutes s
           = (Inl e, s2)"
  using assms by (simp add: main_denoising_def)

lemma enhance_predictor_failure:
  assumes "wav2logspec env temp = Inr lps"
      and "mvn lps mean var = Inr normed"
      and "write_htk env normed 16000 9 = Inr htk"
      and "predicted =
             decode_model env
               ((dir_files s d)
                  (''noisy_normed_lps.htk'' \<mapsto> htk,
                   ''noisy_normed_lps.scp'' \<mapsto>
                     TextFile (index_record (path_join (tmp_path d) ''noisy_normed_lps.htk'')
                                 (cntk_len_of lps))))
               (path_join (tmp_path d) ''noisy_normed_lps.scp'') (tmp_path d) 257
               use_gpu gpu_id"
      and "load_irm predicted = Inl e \<or>
           (\<exists>irm. load_irm predicted = Inr irm \<and> mask_lps lps irm = Inl e)"
  shows "fst (enhance env mean var use_gpu gpu_id d temp s) = Inl e"
  using assms
  by (auto simp: enhance_def Let_def SR_def NFREQS_def)

lemma process_chunk_predictor_failure:
  assumes "256 \<le> length (chunk_of wav_data c i)"
      and "wav2logspec env (chunk_of wav_data c i) = Inr lps"
      and "mvn lps mean var = Inr normed"
      and "write_htk env normed 16000 9 = Inr htk"
      and "predicted =
             decode_model env
               [''noisy_normed_lps.htk'' \<mapsto> htk,
                ''noisy_normed_lps.scp'' \<mapsto>
                   TextFile (index_record
                     (path_join (tmp_path (tmp_counter s)) ''noisy_normed_lps.htk'')
                     (cntk_len_of lps))]
               (path_join (tmp_path (tmp_counter s)) ''noisy_normed_lps.scp'')
               (tmp_path (tmp_counter s)) 257 use_gpu gpu_id"
      and "load_irm predicted = Inl e \<or>
           (\<exists>irm. load_irm predicted = Inr irm \<and> mask_lps lps irm = Inl e)"
  shows "fst (process_chunk env mean var use_gpu gpu_id wav wav_data c tc i data_se s) = Inl e"
proof -
  let ?d = "tmp_counter s"
  let ?s1 = "emit (Print (processing_msg wav i tc))
               (emit (Call_mkdtemp (tmp_path ?d))
                  (s\<lparr>tmp_counter := Suc ?d, scratch := (scratch s)(?d \<mapsto> Map.empty)\<rparr>))"
  have df: "dir_files ?s1 ?d = Map.empty" by (simp add: dir_files_def)
  have "fst (enhance env mean var use_gpu gpu_id ?d (chunk_of wav_data c i) ?s1) = Inl e"
    by (rule enhance_predictor_failure[OF assms(2,3,4) _ assms(6)]) (simp add: df assms(5))
  then show ?thesis
    using assms(1)
    by (simp add: process_chunk_def mkdtemp_def chunk_body_def Let_def WL2_def WL_def
          split_def split: sum.splits)
qed


section \<open>The concrete run, evaluated\<close>

lemma demo_mvn: "mvn demo_lps demo_mean demo_var =
    Inr \<lparr>nrows = 3, ncols = 257,
         elem = (\<lambda>i j. np_div1 (np_sub1 (bc_elem demo_lps i j) (bc_elem demo_mean i j))
                          (bc_elem demo_var i j))\<rparr>"
  by (simp add: mvn_def np_sub_def np_div_def np_binop_def broadcast_dim_def demo_lps_def
        demo_mean_def demo_var_def bc_elem_def)

lemma demo_mask: "mask_lps demo_lps demo_irm =
    Inr \<lparr>nrows = 3, ncols = 257,
         elem = (\<lambda>i j. np_add1 (bc_elem demo_lps i j) (bc_elem (np_log demo_irm) i j))\<rparr>"
  by (simp add: mask_lps_def np_add_def np_binop_def broadcast_dim_def demo_lps_def
        demo_irm_def np_log_def)

lemma demo_enhance:
  "fst (enhance demo_env demo_mean demo_var use_gpu gpu_id d temp s) = Inr temp"
  by (simp add: enhance_def demo_env_def Let_def demo_mvn demo_mask load_irm_def dir_files_def)

lemma demo_process_chunk:
  "fst (process_chunk demo_env demo_mean demo_var use_gpu gpu_id wav wav_data c tc i data_se s)
     = Inr (data_se @ [chunk_of wav_data c i])"
proof -
  have "fst (chunk_body demo_env demo_mean demo_var use_gpu gpu_id wav wav_data c tc i d data_se s1)
        = Inr (data_se @ [chunk_of wav_data c i])" for d s1
    using demo_enhance[of use_gpu gpu_id d "chunk_of wav_data c i"
        "emit (Print (processing_msg wav i tc)) s1"]
    by (auto simp: chunk_body_def Let_def split: prod.splits sum.splits)
  then show ?thesis
    by (simp add: process_chunk_def Let_def split_def)
qed

lemma demo_chunk_loop:
  "fst (chunk_loop demo_env demo_mean demo_var use_gpu gpu_id wav wav_data c tc is data_se s)
     = Inr (data_se @ map (chunk_of wav_data c) is)"
proof (induction "is" arbitrary: data_se s)
  case Nil
  then show ?case by simp
next
  case (Cons i "is")
  obtain r s' where p: "process_chunk demo_env demo_mean demo_var use_gpu gpu_id wav wav_data c
                          tc i data_se s = (r, s')"
    by (cases "process_chunk demo_env demo_mean demo_var use_gpu gpu_id wav wav_data c
                 tc i data_se s")
  have r: "r = Inr (data_se @ [chunk_of wav_data c i])"
    using demo_process_chunk[of use_gpu gpu_id wav wav_data c tc i data_se s] p by simp
  show ?case using Cons.IH[of "data_se @ [chunk_of wav_data c i]" s'] by (simp add: p r)
qed

lemma chunk_loop_out_files:
  "out_files (snd (chunk_loop env mean var use_gpu gpu_id wav wav_data c tc is data_se s))
     = out_files s"
proof (induction "is" arbitrary: data_se s)
  case Nil
  then show ?case by simp
next
  case (Cons i "is")
  obtain r s' where p: "process_chunk env mean var use_gpu gpu_id wav wav_data c
                          tc i data_se s = (r, s')"
    by (cases "process_chunk env mean var use_gpu gpu_id wav wav_data c tc i data_se s")
  have o: "out_files s' = out_files s" using process_chunk_frame[OF p] by simp
  show ?case
  proof (cases r)
    case (Inl e)
    then show ?thesis by (simp add: p o)
  next
    case (Inr ds)
    then show ?thesis using Cons.IH[of ds s'] by (simp add: p o)
  qed
qed

lemma demo_file_a:
  "out_files (snd (denoise_file demo_env demo_mean demo_var ''out'' use_gpu gpu_id (1 / 2048)
                     ''in/a.wav'' s))
     = (out_files s)(''out/a.wav'' \<mapsto> (16000, replicate 600 1)) \<and>
   fst (denoise_file demo_env demo_mean demo_var ''out'' use_gpu gpu_id (1 / 2048)
          ''in/a.wav'' s) = Inr ()"
proof -
  have c: "chunk_length_of (1 / 2048) 16000 = 468"
    by (simp add: chunk_length_examples)
  have t: "total_chunks_of (length (replicate 600 (1::int))) 468
           = Inr \<lceil>real (length (replicate 600 (1::int))) / real_of_int 468\<rceil>"
    by (simp add: total_chunks_of_def)
  let ?s1 = "emit (Call_peak_normalization (replicate 600 1)) s"
  let ?tc = "\<lceil>real (length (replicate 600 (1::int))) / real_of_int 468\<rceil>"
  let ?loop = "chunk_loop demo_env demo_mean demo_var use_gpu gpu_id ''in/a.wav''
                 (replicate 600 1) 468 ?tc [1..?tc] [] ?s1"
  obtain r s2 where l: "?loop = (r, s2)" by (cases ?loop)
  have r: "r = Inr (map (chunk_of (replicate 600 1) 468) [1..?tc])"
    using demo_chunk_loop[of use_gpu gpu_id "''in/a.wav''" "replicate 600 1" 468 ?tc "[1..?tc]"
        "[]" ?s1] l by simp
  have o: "out_files s2 = out_files s"
    using chunk_loop_out_files[of demo_env demo_mean demo_var use_gpu gpu_id "''in/a.wav''"
        "replicate 600 1" 468 ?tc "[1..?tc]" "[]" ?s1] l by simp
  have cc: "concat (map (chunk_of (replicate 600 (1::int)) 468) [1..?tc]) = replicate 600 1"
    by (rule concat_chunks) simp
  have cc2: "concat (map (chunk_of (replicate 600 (1::int)) 468)
                [1..\<lceil>real (length (replicate 600 (1::int))) / 468\<rceil>]) = replicate 600 1"
    using cc by (simp del: length_replicate)
  have ne: "map (chunk_of (replicate 600 (1::int)) 468) [1..?tc] \<noteq> []"
    using cc by (metis concat.simps(1) replicate_empty zero_neq_numeral)
  have w: "wav_read demo_env ''in/a.wav'' = Inr (16000, replicate 600 1)"
          "peak_normalization demo_env (replicate 600 1) = Inr (replicate 600 1)"
    by (simp_all add: demo_env_def)
  show ?thesis
    using l ne
    by (simp add: denoise_file_def chunk_numbers_def w SR_def c t r o cc2 np_concatenate_def Let_def
          wav_write_def path_join_def basename_def del: length_replicate)
qed

lemma demo_batch_a:
  "fst (main_denoising demo_env demo_mean demo_var [''in/a.wav''] ''out'' use_gpu gpu_id
          (1 / 2048) s) = Inr () \<and>
   out_files (snd (main_denoising demo_env demo_mean demo_var [''in/a.wav''] ''out'' use_gpu
          gpu_id (1 / 2048) s))
     = (out_files s)(''out/a.wav'' \<mapsto> (16000, replicate 600 1))"
proof -
  let ?f = "denoise_file demo_env demo_mean demo_var ''out'' use_gpu gpu_id (1 / 2048)
              ''in/a.wav'' s"
  obtain r s' where f: "?f = (r, s')" by (cases ?f)
  have "r = Inr ()" "out_files s' = (out_files s)(''out/a.wav'' \<mapsto> (16000, replicate 600 1))"
    using demo_file_a[of use_gpu gpu_id s] f by simp_all
  then show ?thesis by (simp add: main_denoising_def f)
qed

lemma tmp_path_0: "tmp_path 0 = ''/tmp/tmp0''"
  by (simp add: tmp_path_def show_nat.simps)

lemma flaky_enhance_crash:
  assumes "dir_files s 0 ''irm.mat'' = None"
  shows "fst (enhance flaky_env demo_mean demo_var use_gpu gpu_id 0 temp s) = Inl IOError"
  using assms
  by (simp add: enhance_def flaky_env_def demo_env_def Let_def demo_mvn load_irm_def
        dir_files_def put_file_def tmp_path_0)

lemma flaky_process_chunk_crash:
  assumes "tmp_counter s = 0" and "256 \<le> length (chunk_of wav_data c i)"
  shows "fst (process_chunk flaky_env demo_mean demo_var use_gpu gpu_id wav wav_data c tc i
                data_se s) = Inl IOError"
proof -
  let ?s1 = "emit (Print (processing_msg wav i tc))
               (emit (Call_mkdtemp (tmp_path 0))
                  (s\<lparr>tmp_counter := Suc 0, scratch := (scratch s)(0 \<mapsto> Map.empty)\<rparr>))"
  have "dir_files ?s1 0 ''irm.mat'' = None" by (simp add: dir_files_def)
  from flaky_enhance_crash[OF this, of use_gpu gpu_id "chunk_of wav_data c i"]
  show ?thesis
    using assms
    by (simp add: process_chunk_def mkdtemp_def chunk_body_def Let_def WL2_def WL_def
          split_def split: sum.splits)
qed

lemma flaky_file_a:
  "denoise_file flaky_env demo_mean demo_var ''out'' True 0 (1 / 2048) ''in/a.wav'' init_state
     = (Inl IOError,
        snd (process_chunk flaky_env demo_mean demo_var True 0 ''in/a.wav'' (replicate 600 1)
               468 2 1 [] (emit (Call_peak_normalization (replicate 600 1)) init_state)))"
proof -
  let ?s0 = "emit (Call_peak_normalization (replicate 600 1)) (init_state :: int state)"
  let ?p = "process_chunk flaky_env demo_mean demo_var True 0 ''in/a.wav'' (replicate 600 1)
              468 2 1 [] ?s0"
  have r: "wav_read flaky_env ''in/a.wav'' = Inr (16000, replicate 600 1)"
    and n: "peak_normalization flaky_env (replicate 600 1) = Inr (replicate 600 1)"
    by (simp_all add: flaky_env_def demo_env_def)
  have c: "chunk_length_of (1 / 2048) 16000 = 468"
    by (simp add: chunk_length_examples)
  have t: "total_chunks_of (length (replicate 600 (1::int))) (chunk_length_of (1 / 2048) 16000)
             = Inr 2"
    by (simp add: c total_chunks_of_def)
  have ch: "chunk_of (replicate 600 (1::int)) 468 1 = replicate 468 1"
    by (simp add: chunk_of_nat)
  have "fst ?p = Inl IOError"
    by (rule flaky_process_chunk_crash) (simp_all add: init_state_def ch)
  then have p: "?p = (Inl IOError, snd ?p)" by (metis prod.collapse)
  have b: "chunk_loop flaky_env demo_mean demo_var True 0 ''in/a.wav'' (replicate 600 1) 468 2
             [1..1 - 1] [] ?s0 = (Inr [], ?s0)"
    by simp
  have loop: "chunk_loop flaky_env demo_mean demo_var True 0 ''in/a.wav'' (replicate 600 1)
                (chunk_length_of (1 / 2048) 16000) 2 [1..2] [] ?s0 = (Inl IOError, snd ?p)"
    unfolding c by (rule chunk_loop_fails_at[OF _ _ b p]) simp_all
  show ?thesis by (rule denoise_file_chunk_fail[OF r n t loop])
qed

section \<open>What the predictor gets and what is masked\<close>

text \<open>
  Claim C1. For every chunk that is enhanced, the feature record written for the
  predictor (and lying in the scratch directory when the predictor runs) holds the
  mean-variance-normalized features \<open>(lps - mean) / var\<close>, while the matrix handed to
  the synthesis is the mask applied to the features as extracted, before normalization:
  \<open>lps + log(IRM)\<close>, bin by bin.
\<close>
theorem predictor_gets_mvn_mask_uses_lps:
  assumes "enhance env mean var use_gpu gpu_id d temp s = (Inr w, s')"
  shows "\<exists>lps normed htk irm masked.
           wav2logspec env temp = Inr lps \<and>
           mvn lps mean var = Inr normed \<and>
           (nrows mean = 1 \<and> ncols mean = ncols lps \<and> nrows var = 1 \<and> ncols var = ncols lps
              \<longrightarrow> nrows normed = nrows lps \<and> ncols normed = ncols lps \<and>
                   (\<forall>i<nrows lps. \<forall>j<ncols lps.
                      elem normed i j =
                        np_div1 (np_sub1 (elem lps i j) (elem mean 0 j)) (elem var 0 j))) \<and>
           write_htk env normed 16000 9 = Inr htk \<and>
           dir_files s' d =
             decode_model env
               ((dir_files s d)
                  (''noisy_normed_lps.htk'' \<mapsto> htk,
                   ''noisy_normed_lps.scp'' \<mapsto>
                     TextFile (index_record (path_join (tmp_path d) ''noisy_normed_lps.htk'')
                                 (cntk_len_of lps))))
               (path_join (tmp_path d) ''noisy_normed_lps.scp'') (tmp_path d) 257
               use_gpu gpu_id \<and>
           load_irm (dir_files s' d) = Inr irm \<and>
           mask_lps lps irm = Inr masked \<and>
           (\<forall>i j. elem masked i j = np_add1 (bc_elem lps i j) (np_log1 (bc_elem irm i j))) \<and>
           (nrows irm = nrows lps \<and> ncols irm = ncols lps
              \<longrightarrow> nrows masked = nrows lps \<and> ncols masked = ncols lps \<and>
                   (\<forall>i<nrows lps. \<forall>j<ncols lps.
                      elem masked i j = np_add1 (elem lps i j) (np_log1 (elem irm i j)))) \<and>
           logspec2wav env masked temp = Inr w \<and>
           Call_write_htk (path_join (tmp_path d) ''noisy_normed_lps.htk'') normed 16000 9
             \<in> set (trace s') \<and>
           last (trace s') = Call_logspec2wav masked temp"
proof -
  from enhance_success[OF assms] obtain lps normed htk irm masked where
    f: "wav2logspec env temp = Inr lps"
       "mvn lps mean var = Inr normed"
       "write_htk env normed 16000 9 = Inr htk"
       "dir_files s' d =
             decode_model env
               ((dir_files s d)
                  (''noisy_normed_lps.htk'' \<mapsto> htk,
                   ''noisy_normed_lps.scp'' \<mapsto>
                     TextFile (index_record (path_join (tmp_path d) ''noisy_normed_lps.htk'')
                                 (cntk_len_of lps))))
               (path_join (tmp_path d) ''noisy_normed_lps.scp'') (tmp_path d) 257
               use_gpu gpu_id"
       "load_irm (dir_files s' d) = Inr irm"
       "mask_lps lps irm = Inr masked"
       "logspec2wav env masked temp = Inr w"
    and t: "trace s' = trace s @
             [Call_wav2logspec temp,
              Call_write_htk (path_join (tmp_path d) ''noisy_normed_lps.htk'') normed 16000 9,
              Write_text (path_join (tmp_path d) ''noisy_normed_lps.scp'')
                (index_record (path_join (tmp_path d) ''noisy_normed_lps.htk'')
                   (cntk_len_of lps)),
              Call_decode_model (path_join (tmp_path d) ''noisy_normed_lps.scp'') (tmp_path d)
                257 use_gpu gpu_id,
              Call_loadmat (path_join (tmp_path d) ''irm.mat''),
              Call_logspec2wav masked temp]"
    by blast
  have n: "nrows mean = 1 \<and> ncols mean = ncols lps \<and> nrows var = 1 \<and> ncols var = ncols lps
              \<longrightarrow> nrows normed = nrows lps \<and> ncols normed = ncols lps \<and>
                   (\<forall>i<nrows lps. \<forall>j<ncols lps.
                      elem normed i j =
                        np_div1 (np_sub1 (elem lps i j) (elem mean 0 j)) (elem var 0 j))"
    using mvn_elem[OF f(2)] by blast
  have m1: "\<forall>i j. elem masked i j = np_add1 (bc_elem lps i j) (np_log1 (bc_elem irm i j))"
    using mask_lps_elem[OF f(6)] by blast
  have m2: "nrows irm = nrows lps \<and> ncols irm = ncols lps
              \<longrightarrow> nrows masked = nrows lps \<and> ncols masked = ncols lps \<and>
                   (\<forall>i<nrows lps. \<forall>j<ncols lps.
                      elem masked i j = np_add1 (elem lps i j) (np_log1 (elem irm i j)))"
  proof
    assume sh: "nrows irm = nrows lps \<and> ncols irm = ncols lps"
    from mask_lps_same_shape[of irm lps] sh f(6)
    show "nrows masked = nrows lps \<and> ncols masked = ncols lps \<and>
                   (\<forall>i<nrows lps. \<forall>j<ncols lps.
                      elem masked i j = np_add1 (elem lps i j) (np_log1 (elem irm i j)))"
      by auto
  qed
  have e1: "Call_write_htk (path_join (tmp_path d) ''noisy_normed_lps.htk'') normed 16000 9
             \<in> set (trace s')"
    unfolding t by simp
  have e2: "last (trace s') = Call_logspec2wav masked temp"
    unfolding t by simp
  show ?thesis
    using f(1) f(2) n f(3) f(4) f(5) f(6) m1 m2 f(7) e1 e2 by blast
qed

theorem predictor_gets_mvn_mask_uses_lps_witness:
  "fst (enhance demo_env demo_mean demo_var True 0 0 (replicate 468 1) init_state)
     = Inr (replicate 468 1) \<and>
   (\<exists>normed masked.
      Call_write_htk ''/tmp/tmp0/noisy_normed_lps.htk'' normed 16000 9
        \<in> set (trace (snd (enhance demo_env demo_mean demo_var True 0 0 (replicate 468 1)
                              init_state))) \<and>
      elem normed 0 0 = Fin (1 / 2) \<and>
      last (trace (snd (enhance demo_env demo_mean demo_var True 0 0 (replicate 468 1)
                          init_state))) = Call_logspec2wav masked (replicate 468 1) \<and>
      elem masked 0 0 = Fin 2)"
proof -
  let ?e = "enhance demo_env demo_mean demo_var True 0 0 (replicate 468 1)
              (init_state :: int state)"
  have ok: "fst ?e = Inr (replicate 468 1)" by (rule demo_enhance)
  then have run: "?e = (Inr (replicate 468 1), snd ?e)" by (metis prod.collapse)
  from predictor_gets_mvn_mask_uses_lps[OF run] obtain lps normed htk irm masked where
    f: "wav2logspec demo_env (replicate 468 1) = Inr lps"
       "mvn lps demo_mean demo_var = Inr normed"
       "dir_files (snd ?e) 0 =
             decode_model demo_env
               ((dir_files (init_state :: int state) 0)
                  (''noisy_normed_lps.htk'' \<mapsto> htk,
                   ''noisy_normed_lps.scp'' \<mapsto>
                     TextFile (index_record (path_join (tmp_path 0) ''noisy_normed_lps.htk'')
                                 (cntk_len_of lps))))
               (path_join (tmp_path 0) ''noisy_normed_lps.scp'') (tmp_path 0) 257 True 0"
       "load_irm (dir_files (snd ?e) 0) = Inr irm"
       "\<forall>i j. elem masked i j = np_add1 (bc_elem lps i j) (np_log1 (bc_elem irm i j))"
       "Call_write_htk (path_join (tmp_path 0) ''noisy_normed_lps.htk'') normed 16000 9
             \<in> set (trace (snd ?e))"
       "last (trace (snd ?e)) = Call_logspec2wav masked (replicate 468 1)"
    by blast
  have lps: "lps = demo_lps" using f(1) by (simp add: demo_env_def)
  have irm: "irm = demo_irm"
    using f(4) unfolding f(3) by (simp add: demo_env_def load_irm_def)
  have n: "elem normed 0 0 = Fin (1 / 2)"
    using f(2) unfolding lps demo_mvn
    by (auto simp: bc_elem_def demo_lps_def demo_mean_def demo_var_def np_sub1_def)
  have m: "elem masked 0 0 = Fin 2"
    using f(5) unfolding lps irm by (simp add: bc_elem_def demo_lps_def demo_irm_def)
  have e: "Call_write_htk ''/tmp/tmp0/noisy_normed_lps.htk'' normed 16000 9
             \<in> set (trace (snd ?e))"
  proof -
    have p: "path_join (tmp_path 0) ''noisy_normed_lps.htk'' = ''/tmp/tmp0/noisy_normed_lps.htk''"
      unfolding path_join_tmp by (simp add: tmp_path_0)
    show ?thesis using f(6) unfolding p .
  qed
  show ?thesis
    using ok e f(7) n m by blast
qed

section \<open>The masking operation\<close>

text \<open>
  Claim C2, amended. The masking operation takes the logarithm of the mask as the
  predictor returned it; nothing clamps the mask first. For a mask of the shape of the
  feature matrix it raises no error and returns, bin by bin, the feature plus the
  logarithm of the mask; where the feature is finite and the mask is positive this is the
  finite value \<open>lps + ln(irm)\<close>, where the mask is zero it is minus infinity, and where
  the mask is negative it is NaN.
\<close>
theorem mask_is_not_clamped:
  assumes "nrows irm = nrows lps" and "ncols irm = ncols lps"
  shows "\<exists>masked. mask_lps lps irm = Inr masked \<and> nrows masked = nrows lps \<and>
           ncols masked = ncols lps \<and>
           (\<forall>i<nrows lps. \<forall>j<ncols lps.
              elem masked i j = np_add1 (elem lps i j) (np_log1 (elem irm i j)) \<and>
              (\<forall>x y. elem lps i j = Fin x \<and> elem irm i j = Fin y \<longrightarrow>
                 elem masked i j =
                   (if 0 < y then Fin (x + ln y) else if y = 0 then NInf else NaN)))"
proof -
  from mask_lps_same_shape[OF assms] obtain masked where
    m: "mask_lps lps irm = Inr masked" "nrows masked = nrows lps" "ncols masked = ncols lps"
       "\<forall>i<nrows lps. \<forall>j<ncols lps.
              elem masked i j = np_add1 (elem lps i j) (np_log1 (elem irm i j))"
    by blast
  have "\<forall>i<nrows lps. \<forall>j<ncols lps.
              elem masked i j = np_add1 (elem lps i j) (np_log1 (elem irm i j)) \<and>
              (\<forall>x y. elem lps i j = Fin x \<and> elem irm i j = Fin y \<longrightarrow>
                 elem masked i j =
                   (if 0 < y then Fin (x + ln y) else if y = 0 then NInf else NaN))"
    using m(4) by auto
  then show ?thesis using m(1-3) by blast
qed

theorem mask_is_not_clamped_counterexample:
  "map_sum id (\<lambda>masked. elem masked 0 0) (mask_lps demo_lps zero_irm) = Inr NInf"
  by (simp add: mask_lps_def np_add_def np_binop_def broadcast_dim_def np_log_def
        demo_lps_def zero_irm_def bc_elem_def)

theorem mask_is_not_clamped_witness:
  "nrows zero_irm = nrows demo_lps \<and> ncols zero_irm = ncols demo_lps \<and>
   (\<exists>masked. mask_lps demo_lps zero_irm = Inr masked \<and> nrows masked = 3 \<and> ncols masked = 257 \<and>
      (\<forall>i<3. \<forall>j<257. elem masked i j = NInf))"
proof -
  have r: "nrows zero_irm = nrows demo_lps" and c: "ncols zero_irm = ncols demo_lps"
    by (simp_all add: zero_irm_def demo_lps_def)
  from mask_is_not_clamped[OF r c] r c show ?thesis
    by (auto simp: zero_irm_def demo_lps_def)
qed

section \<open>Predictor failures\<close>

text \<open>
  Claim C3, amended. Let the chunks before chunk \<open>k\<close> of a file be processed without
  an exception, and let the predictor fail on chunk \<open>k\<close>: after the worker has run over
  the scratch directory that holds the feature record and the index record, either
  \<open>loadmat\<close> raises (the mask artifact is missing after a crash of the worker, is
  malformed, or has no matrix \<open>IRM\<close>) or the masking raises (the shape of the mask
  cannot be broadcast against the shape of the features). Then no output file is written
  for the file, and the exception leaves the loop over the files: \<open>main_denoising\<close>
  ends with this exception, and the files after the failing one are not processed.
\<close>
theorem predictor_failure_aborts_batch:
  assumes read: "wav_read env wav = Inr (16000, raw)"
      and norm: "peak_normalization env raw = Inr wav_data"
      and c: "c = chunk_length_of truncate_minutes 16000"
      and tc: "total_chunks_of (length wav_data) c = Inr tc"
      and k: "1 \<le> k" "k \<le> tc"
      and before: "chunk_loop env mean var use_gpu gpu_id wav wav_data c tc [1..k - 1] []
                     (emit (Call_peak_normalization raw) s) = (Inr ds, s1)"
      and long: "256 \<le> length (chunk_of wav_data c k)"
      and feat: "wav2logspec env (chunk_of wav_data c k) = Inr lps"
                "mvn lps mean var = Inr normed"
                "write_htk env normed 16000 9 = Inr htk"
      and pred: "predicted =
             decode_model env
               [''noisy_normed_lps.htk'' \<mapsto> htk,
                ''noisy_normed_lps.scp'' \<mapsto>
                   TextFile (index_record
                     (path_join (tmp_path (tmp_counter s1)) ''noisy_normed_lps.htk'')
                     (cntk_len_of lps))]
               (path_join (tmp_path (tmp_counter s1)) ''noisy_normed_lps.scp'')
               (tmp_path (tmp_counter s1)) 257 use_gpu gpu_id"
      and fail: "load_irm predicted = Inl e \<or>
                 (\<exists>irm. load_irm predicted = Inr irm \<and> mask_lps lps irm = Inl e)"
  shows "fst (main_denoising env mean var (wav # wavs) out_dir use_gpu gpu_id
                truncate_minutes s) = Inl e \<and>
         out_files (snd (main_denoising env mean var (wav # wavs) out_dir use_gpu gpu_id
                truncate_minutes s)) = out_files s \<and>
         main_denoising env mean var (wav # wavs) out_dir use_gpu gpu_id truncate_minutes s =
           main_denoising env mean var [wav] out_dir use_gpu gpu_id truncate_minutes s"
proof -
  let ?p = "process_chunk env mean var use_gpu gpu_id wav wav_data c tc k ds s1"
  have "fst ?p = Inl e"
    by (rule process_chunk_predictor_failure[OF long feat pred fail])
  then have p: "?p = (Inl e, snd ?p)" by (metis prod.collapse)
  have loop: "chunk_loop env mean var use_gpu gpu_id wav wav_data c tc [1..tc] []
                (emit (Call_peak_normalization raw) s) = (Inl e, snd ?p)"
    by (rule chunk_loop_fails_at[OF k before p])
  have fl: "denoise_file env mean var out_dir use_gpu gpu_id truncate_minutes wav s
                = (Inl e, snd ?p)"
    using read norm tc loop by (simp add: denoise_file_def chunk_numbers_def SR_def Let_def c)
  have o: "out_files (snd ?p) = out_files s"
    using chunk_loop_out_files[of env mean var use_gpu gpu_id wav wav_data c tc "[1..tc]" "[]"
            "emit (Call_peak_normalization raw) s"]
    by (simp add: loop)
  show ?thesis
    using file_loop_fail[OF fl, of wavs] file_loop_fail[OF fl, of "[]"] o by simp
qed

theorem predictor_failure_aborts_batch_counterexample:
  "fst (main_denoising flaky_env demo_mean demo_var [''in/a.wav'', ''in/c.wav''] ''out'' True 0
          (1 / 2048) init_state) = Inl IOError \<and>
   out_files (snd (main_denoising flaky_env demo_mean demo_var [''in/a.wav'', ''in/c.wav'']
          ''out'' True 0 (1 / 2048) init_state)) = Map.empty"
proof -
  let ?s0 = "emit (Call_peak_normalization (replicate 600 1)) (init_state :: int state)"
  let ?p = "process_chunk flaky_env demo_mean demo_var True 0 ''in/a.wav'' (replicate 600 1)
              468 2 1 [] ?s0"
  have "?p = (fst ?p, snd ?p)" by simp
  from process_chunk_frame[OF this] have "out_files (snd ?p) = Map.empty"
    by (simp add: init_state_def)
  then show ?thesis
    using file_loop_fail[OF flaky_file_a, of "[''in/c.wav'']"] by simp
qed

theorem predictor_failure_aborts_batch_witness:
  "wav_read flaky_env ''in/a.wav'' = Inr (16000, replicate 600 1) \<and>
   load_irm (decode_model flaky_env
               [''noisy_normed_lps.htk'' \<mapsto> HtkFile demo_lps 16000 9]
               ''/tmp/tmp0/noisy_normed_lps.scp'' ''/tmp/tmp0'' 257 True 0) = Inl IOError \<and>
   fst (main_denoising flaky_env demo_mean demo_var [''in/a.wav'', ''in/c.wav''] ''out'' True 0
          (1 / 2048) init_state) = Inl IOError \<and>
   main_denoising flaky_env demo_mean demo_var [''in/a.wav'', ''in/c.wav''] ''out'' True 0
          (1 / 2048) init_state =
   main_denoising flaky_env demo_mean demo_var [''in/a.wav''] ''out'' True 0
          (1 / 2048) init_state"
proof -
  let ?s0 = "emit (Call_peak_normalization (replicate 600 1)) (init_state :: int state)"
  have r: "wav_read flaky_env ''in/a.wav'' = Inr (16000, replicate 600 1)"
    and n: "peak_normalization flaky_env (replicate 600 1) = Inr (replicate 600 1)"
    by (simp_all add: flaky_env_def demo_env_def)
  have c: "(468::int) = chunk_length_of (1 / 2048) 16000"
    by (simp add: chunk_length_examples)
  have t: "total_chunks_of (length (replicate 600 (1::int))) 468 = Inr 2"
    by (simp add: total_chunks_of_def)
  have k: "(1::int) \<le> 1" "(1::int) \<le> 2" by simp_all
  have b: "chunk_loop flaky_env demo_mean demo_var True 0 ''in/a.wav'' (replicate 600 1) 468 2
             [1..1 - 1] [] ?s0 = (Inr [], ?s0)"
    by simp
  have ch: "chunk_of (replicate 600 (1::int)) 468 1 = replicate 468 1"
    by (simp add: chunk_of_nat)
  have long: "256 \<le> length (chunk_of (replicate 600 (1::int)) 468 1)"
    by (simp add: ch)
  have f1: "wav2logspec flaky_env (chunk_of (replicate 600 1) 468 1) = Inr demo_lps"
    by (simp add: flaky_env_def demo_env_def)
  let ?normed = "\<lparr>nrows = 3, ncols = 257,
         elem = (\<lambda>i j. np_div1 (np_sub1 (bc_elem demo_lps i j) (bc_elem demo_mean i j))
                          (bc_elem demo_var i j))\<rparr>"
  have f3: "write_htk flaky_env ?normed 16000 9 = Inr (HtkFile ?normed 16000 9)"
    by (simp add: flaky_env_def demo_env_def)
  let ?files = "[''noisy_normed_lps.htk'' \<mapsto> HtkFile ?normed 16000 9,
                ''noisy_normed_lps.scp'' \<mapsto>
                   TextFile (index_record
                     (path_join (tmp_path (tmp_counter ?s0)) ''noisy_normed_lps.htk'')
                     (cntk_len_of demo_lps))]"
  let ?predicted = "decode_model flaky_env ?files
               (path_join (tmp_path (tmp_counter ?s0)) ''noisy_normed_lps.scp'')
               (tmp_path (tmp_counter ?s0)) 257 True 0"
  have tp: "tmp_path (tmp_counter ?s0) = ''/tmp/tmp0''"
    by (simp add: init_state_def tmp_path_0)
  have pf: "?predicted = ?files"
    unfolding tp by (simp add: flaky_env_def demo_env_def)
  have "load_irm ?predicted = Inl IOError"
    unfolding pf by (simp add: load_irm_def)
  then have fail: "load_irm ?predicted = Inl IOError \<or>
                 (\<exists>irm. load_irm ?predicted = Inr irm \<and> mask_lps demo_lps irm = Inl IOError)"
    by (rule disjI1)
  have crash: "load_irm (decode_model flaky_env
               [''noisy_normed_lps.htk'' \<mapsto> HtkFile demo_lps 16000 9]
               ''/tmp/tmp0/noisy_normed_lps.scp'' ''/tmp/tmp0'' 257 True 0) = Inl IOError"
    by (simp add: flaky_env_def demo_env_def load_irm_def)
  from predictor_failure_aborts_batch[OF r n c t k b long f1 demo_mvn f3 refl fail,
         of "[''in/c.wav'']" "''out''"] r crash
  show ?thesis by blast
qed

section \<open>Splitting a waveform into chunks\<close>

text \<open>
  Claim C4, amended. When the chunk length \<open>int(truncate_minutes * rate * 60)\<close>, with
  the two products rounded as float64 rounds them, is at least 1, the number of chunks is
  \<open>ceil(total_samples / chunk_length)\<close>, the chunk numbers the loop goes through are 1
  to that number, the chunks are the consecutive slices of \<open>chunk_length\<close> samples of the
  waveform, in order, each of them non-empty, all but the last of length
  \<open>chunk_length\<close>, and their concatenation is the waveform; and when the chunk loop
  over these numbers ends without an exception, its outputs stand one for one, in order,
  for these chunks: a short chunk itself, or what the synthesis made of the chunk.
  (For a chunk length of zero the orchestrator raises \<open>ZeroDivisionError\<close>, as the
  counterexample below shows for \<open>truncate_minutes = 0\<close>.)
\<close>

theorem chunks_partition_waveform:
  assumes "c = chunk_length_of truncate_minutes rate" and "1 \<le> c"
      and "tc = \<lceil>real (length wav_data) / real_of_int c\<rceil>"
  shows "c = \<lfloor>fl64 (fl64 (truncate_minutes * real_of_int rate) * 60)\<rfloor> \<and>
         total_chunks_of (length wav_data) c = Inr tc \<and>
         chunk_numbers tc = [1..tc] \<and>
         length (chunk_numbers tc) = nat tc \<and>
         concat (map (chunk_of wav_data c) (chunk_numbers tc)) = wav_data \<and>
         (\<forall>i\<in>set (chunk_numbers tc).
              chunk_of wav_data c i = take (nat c) (drop (nat ((i - 1) * c)) wav_data) \<and>
              1 \<le> length (chunk_of wav_data c i) \<and>
              int (length (chunk_of wav_data c i)) \<le> c \<and>
              (i < tc \<longrightarrow> int (length (chunk_of wav_data c i)) = c)) \<and>
         (\<forall>ds s s'.
              chunk_loop env mean var use_gpu gpu_id wav wav_data c tc (chunk_numbers tc) [] s
                = (Inr ds, s') \<longrightarrow>
              list_all2
                (\<lambda>i w. if int (length (chunk_of wav_data c i)) < WL2
                        then w = chunk_of wav_data c i
                        else (\<exists>m. logspec2wav env m (chunk_of wav_data c i) = Inr w))
                (chunk_numbers tc) ds)"
proof -
  let ?x = "fl64 (fl64 (truncate_minutes * real_of_int rate) * 60)"
  have cx: "c = py_int ?x" by (simp add: assms(1) chunk_length_of_def)
  have "0 \<le> ?x"
  proof (rule ccontr)
    assume n: "\<not> 0 \<le> ?x"
    then have "c = \<lceil>?x\<rceil>" by (simp add: cx py_int_def)
    moreover have "\<lceil>?x\<rceil> \<le> 0" using n by (simp add: ceiling_le_zero)
    ultimately show False using assms(2) by simp
  qed
  then have fl: "c = \<lfloor>?x\<rfloor>" by (simp add: cx py_int_def)
  have tot: "total_chunks_of (length wav_data) c = Inr tc"
    unfolding assms(3) by (rule total_chunks_bounds(1)[OF assms(2)])
  have num: "chunk_numbers tc = [1..tc]" by (simp add: chunk_numbers_def)
  have len: "length (chunk_numbers tc) = nat tc" by (simp add: chunk_numbers_def)
  have cc: "concat (map (chunk_of wav_data c) (chunk_numbers tc)) = wav_data"
    unfolding chunk_numbers_def assms(3) by (rule concat_chunks[OF assms(2)])
  have each: "chunk_of wav_data c i = take (nat c) (drop (nat ((i - 1) * c)) wav_data) \<and>
              1 \<le> length (chunk_of wav_data c i) \<and>
              int (length (chunk_of wav_data c i)) \<le> c \<and>
              (i < tc \<longrightarrow> int (length (chunk_of wav_data c i)) = c)"
    if "1 \<le> i \<and> i \<le> tc" for i
    using that chunk_of_nat[OF assms(2), of i wav_data]
      chunk_lengths[OF assms(2), of i wav_data]
    unfolding assms(3) by blast
  have every: "\<forall>i\<in>set (chunk_numbers tc).
              chunk_of wav_data c i = take (nat c) (drop (nat ((i - 1) * c)) wav_data) \<and>
              1 \<le> length (chunk_of wav_data c i) \<and>
              int (length (chunk_of wav_data c i)) \<le> c \<and>
              (i < tc \<longrightarrow> int (length (chunk_of wav_data c i)) = c)"
  proof
    fix i assume "i \<in> set (chunk_numbers tc)"
    then have "1 \<le> i \<and> i \<le> tc" by (simp add: chunk_numbers_def)
    then show "chunk_of wav_data c i = take (nat c) (drop (nat ((i - 1) * c)) wav_data) \<and>
              1 \<le> length (chunk_of wav_data c i) \<and>
              int (length (chunk_of wav_data c i)) \<le> c \<and>
              (i < tc \<longrightarrow> int (length (chunk_of wav_data c i)) = c)"
      by (rule each)
  qed
  have loop: "\<forall>ds s s'.
              chunk_loop env mean var use_gpu gpu_id wav wav_data c tc (chunk_numbers tc) [] s
                = (Inr ds, s') \<longrightarrow>
              list_all2
                (\<lambda>i w. if int (length (chunk_of wav_data c i)) < WL2
                        then w = chunk_of wav_data c i
                        else (\<exists>m. logspec2wav env m (chunk_of wav_data c i) = Inr w))
                (chunk_numbers tc) ds"
  proof (intro allI impI)
    fix ds s s'
    assume "chunk_loop env mean var use_gpu gpu_id wav wav_data c tc (chunk_numbers tc) [] s
                = (Inr ds, s')"
    from chunk_loop_outs[OF this]
    show "list_all2
                (\<lambda>i w. if int (length (chunk_of wav_data c i)) < WL2
                        then w = chunk_of wav_data c i
                        else (\<exists>m. logspec2wav env m (chunk_of wav_data c i) = Inr w))
                (chunk_numbers tc) ds"
      by simp
  qed
  show ?thesis by (intro conjI fl tot num len cc every loop)
qed

theorem chunks_partition_waveform_counterexample:
  "chunk_length_of 0 16000 = 0 \<and>
   total_chunks_of (length (replicate 600 (1::int))) (chunk_length_of 0 16000)
     = Inl ZeroDivisionError \<and>
   fst (main_denoising demo_env demo_mean demo_var [''in/a.wav''] ''out'' True 0 0 init_state)
     = Inl ZeroDivisionError"
  by (simp add: chunk_length_examples total_chunks_of_def main_denoising_def denoise_file_def
        demo_env_def SR_def)

theorem chunks_partition_waveform_witness:
  "(468::int) = chunk_length_of (1 / 2048) 16000 \<and> (1::int) \<le> 468 \<and>
   total_chunks_of (length (replicate 600 (1::int))) 468 = Inr 2 \<and>
   chunk_numbers 2 = [1, 2] \<and>
   concat (map (chunk_of (replicate 600 (1::int)) 468) (chunk_numbers 2)) = replicate 600 1 \<and>
   length (chunk_of (replicate 600 (1::int)) 468 1) = 468 \<and>
   length (chunk_of (replicate 600 (1::int)) 468 2) = 132 \<and>
   fst (chunk_loop demo_env demo_mean demo_var True 0 ''in/a.wav'' (replicate 600 1) 468 2
          (chunk_numbers 2) [] init_state) = Inr [replicate 468 1, replicate 132 1] \<and>
   (288000::int) = chunk_length_of (5404319552844595 / 18014398509481984) 16000 \<and>
   total_chunks_of (length (replicate 288000 (0::int))) 288000 = Inr 1"
proof -
  have c: "(468::int) = chunk_length_of (1 / 2048) 16000"
    by (simp add: chunk_length_examples)
  have p: "(1::int) \<le> 468" by simp
  have t: "(2::int) = \<lceil>real (length (replicate 600 (1::int))) / real_of_int 468\<rceil>"
    by simp
  have l: "chunk_of (replicate 600 (1::int)) 468 1 = replicate 468 1"
          "chunk_of (replicate 600 (1::int)) 468 2 = replicate 132 1"
    by (simp_all add: chunk_of_nat)
  have n: "[1..2::int] = [1, 2]"
    using upto_rec1[of 1 "2::int"] upto_rec1[of 2 "2::int"] by simp
  have "fst (chunk_loop demo_env demo_mean demo_var True 0 ''in/a.wav'' (replicate 600 1)
              468 2 (chunk_numbers 2) [] init_state)
          = Inr ([] @ map (chunk_of (replicate 600 1) 468) (chunk_numbers 2))"
    by (rule demo_chunk_loop)
  also have "\<dots> = Inr [replicate 468 1, replicate 132 1]"
    by (simp add: chunk_numbers_def n l)
  finally have lp: "fst (chunk_loop demo_env demo_mean demo_var True 0 ''in/a.wav''
              (replicate 600 1) 468 2 (chunk_numbers 2) [] init_state)
          = Inr [replicate 468 1, replicate 132 1]" .
  have c3: "(288000::int) = chunk_length_of (5404319552844595 / 18014398509481984) 16000"
    by (simp add: chunk_length_examples)
  have p3: "(1::int) \<le> 288000" by simp
  have t3: "(1::int) = \<lceil>real (length (replicate 288000 (0::int))) / real_of_int 288000\<rceil>"
    by simp
  note a = chunks_partition_waveform[OF c p t, of demo_env demo_mean demo_var True 0
             "''in/a.wav''"]
  note b = chunks_partition_waveform[OF c3 p3 t3, of demo_env demo_mean demo_var True 0
             "''in/a.wav''"]
  from a have a1: "total_chunks_of (length (replicate 600 (1::int))) 468 = Inr 2"
    and a2: "chunk_numbers 2 = [1..2]"
    and a3: "concat (map (chunk_of (replicate 600 (1::int)) 468) (chunk_numbers 2))
               = replicate 600 1"
    by blast+
  from b have b1: "total_chunks_of (length (replicate 288000 (0::int))) 288000 = Inr 1"
    by blast
  show ?thesis
    using c p a1 a2[unfolded n] a3 lp c3 b1 by (simp add: l)
qed

section \<open>Length of the output\<close>

text \<open>
  Claim C5, amended. Whenever the processing of a 16000 Hz file completes and writes its
  output (which needs a chunk length \<open>int(truncate_minutes * rate * 60)\<close> of at least 1,
  a waveform that is not empty and no exception in any chunk), the waveform written under
  the file's base name has as many samples as the peak-normalized waveform, for any number
  of chunks, provided the synthesis \<open>logspec2wav\<close> returns as many samples as the chunk
  it is given. (For a positive \<open>truncate_minutes\<close> below 1/960000 the chunk length is
  zero and the orchestrator raises \<open>ZeroDivisionError\<close>: no output is written, as the
  counterexample below shows.)
\<close>
theorem output_length_preserved:
  assumes lp: "\<forall>m t w. logspec2wav env m t = Inr w \<longrightarrow> length w = length t"
      and read: "wav_read env wav = Inr (16000, raw)"
      and norm: "peak_normalization env raw = Inr wav_data"
      and run: "denoise_file env mean var out_dir use_gpu gpu_id truncate_minutes wav s
                  = (Inr (), s')"
  shows "(\<exists>out. out_files s' (path_join out_dir (basename wav)) = Some (16000, out) \<and>
                length out = length wav_data) \<and>
         1 \<le> chunk_length_of truncate_minutes 16000 \<and> wav_data \<noteq> []"
proof -
  define c where "c = chunk_length_of truncate_minutes 16000"
  let ?P = "\<lambda>i w. if int (length (chunk_of wav_data c i)) < WL2
                    then w = chunk_of wav_data c i
                    else (\<exists>m. logspec2wav env m (chunk_of wav_data c i) = Inr w)"
  from denoise_file_success[OF run read norm] obtain tc ds s2 where
    tc: "total_chunks_of (length wav_data) c = Inr tc"
    and loop: "chunk_loop env mean var use_gpu gpu_id wav wav_data c tc [1..tc] []
                 (emit (Call_peak_normalization raw) s) = (Inr ds, s2)"
    and ne: "ds \<noteq> []"
    and s': "s' = emit (Print (finished_msg wav))
                   (wav_write (path_join out_dir (basename wav)) 16000 (concat ds) s2)"
    unfolding c_def by blast
  from chunk_loop_outs[OF loop] have all2: "list_all2 ?P [1..tc] ds" by simp
  have "length [1..tc] = length ds" using all2 by (rule list_all2_lengthD)
  then have tc1: "1 \<le> tc" using ne by (cases "1 \<le> tc") auto
  have c0: "c \<noteq> 0" and tceq: "tc = \<lceil>real (length wav_data) / real_of_int c\<rceil>"
    using tc by (auto simp: total_chunks_of_def split: if_splits)
  have c1: "1 \<le> c"
  proof (rule ccontr)
    assume "\<not> 1 \<le> c"
    then have "c < 0" using c0 by simp
    from nonpositive_chunk_length[OF this, of "length wav_data"] tc1 tceq
    show False by simp
  qed
  have n0: "wav_data \<noteq> []"
    using total_chunks_bounds(5)[OF c1, of "length wav_data"] tc1 tceq by auto
  have "list_all2 (\<lambda>i w. length w = length (chunk_of wav_data c i)) [1..tc] ds"
    using all2 by (rule list_all2_mono) (use lp in \<open>auto split: if_splits\<close>)
  then have "length (concat ds) = length (concat (map (chunk_of wav_data c) [1..tc]))"
    by (rule length_concat_all2)
  also have "\<dots> = length wav_data"
    unfolding tceq by (simp only: concat_chunks[OF c1])
  finally have len: "length (concat ds) = length wav_data" .
  have "out_files s' (path_join out_dir (basename wav)) = Some (16000, concat ds)"
    by (simp add: s' wav_write_def)
  then show ?thesis using len c1 n0 unfolding c_def by blast
qed

theorem output_length_preserved_counterexample:
  "(0::real) < 1 / 1048576 \<and>
   chunk_length_of (1 / 1048576) 16000 = 0 \<and>
   main_denoising demo_env demo_mean demo_var [''in/a.wav''] ''out'' True 0 (1 / 1048576)
     init_state
   = (Inl ZeroDivisionError, init_state\<lparr>trace := [Call_peak_normalization (replicate 600 1)]\<rparr>)"
proof -
  have c: "chunk_length_of (1 / 1048576) 16000 = 0"
    by (simp add: chunk_length_examples)
  show ?thesis
    by (simp add: c total_chunks_of_def main_denoising_def denoise_file_def chunk_numbers_def
          demo_env_def SR_def init_state_def emit_def)
qed

theorem output_length_preserved_witness:
  "wav_read demo_env ''in/a.wav'' = Inr (16000, replicate 600 1) \<and>
   peak_normalization demo_env (replicate 600 1) = Inr (replicate 600 1) \<and>
   fst (denoise_file demo_env demo_mean demo_var ''out'' True 0 (1 / 2048) ''in/a.wav''
          init_state) = Inr () \<and>
   (\<exists>out. out_files (snd (denoise_file demo_env demo_mean demo_var ''out'' True 0 (1 / 2048)
                            ''in/a.wav'' init_state)) (path_join ''out'' (basename ''in/a.wav''))
            = Some (16000, out) \<and> length out = length (replicate 600 (1::int)))"
proof -
  let ?f = "denoise_file demo_env demo_mean demo_var ''out'' True 0 (1 / 2048) ''in/a.wav''
              (init_state :: int state)"
  have lp: "\<forall>m t w. logspec2wav demo_env m t = Inr w \<longrightarrow> length w = length t"
    by (simp add: demo_env_def)
  have read: "wav_read demo_env ''in/a.wav'' = Inr (16000, replicate 600 1)"
    and norm: "peak_normalization demo_env (replicate 600 1) = Inr (replicate 600 1)"
    by (simp_all add: demo_env_def)
  have ok: "fst ?f = Inr ()" using demo_file_a[of True 0 init_state] by simp
  then have run: "?f = (Inr (), snd ?f)" by (metis prod.collapse)
  from output_length_preserved[OF lp read norm run] read norm ok
  show ?thesis by blast
qed

section \<open>Short chunks\<close>

text \<open>
  Claim C6. A chunk of fewer than 256 samples (half the analysis window) is not enhanced:
  its iteration of the chunk loop appends the chunk's own samples, unmodified, to the
  list of chunk outputs, and the only calls it makes are the creation of the scratch
  directory, the progress message and the removal of the scratch directory; there is no
  feature extraction and no predictor invocation. When the processing of the file
  completes, the samples of the chunk (a slice of the peak-normalized waveform) stand in
  the waveform written, sample for sample.
\<close>
theorem short_chunk_passthrough:
  assumes "length (chunk_of wav_data c i) < 256"
  shows "process_chunk env mean var use_gpu gpu_id wav wav_data c tc i data_se s =
           (Inr (data_se @ [chunk_of wav_data c i]),
            s\<lparr>tmp_counter := Suc (tmp_counter s),
              scratch := (scratch s)(tmp_counter s := None),
              trace := trace s @ [Call_mkdtemp (tmp_path (tmp_counter s)),
                                  Print (processing_msg wav i tc),
                                  Call_rmtree (tmp_path (tmp_counter s))]\<rparr>) \<and>
         (wav_read env wav = Inr (16000, raw) \<and>
          peak_normalization env raw = Inr wav_data \<and>
          c = chunk_length_of truncate_minutes 16000 \<and>
          total_chunks_of (length wav_data) c = Inr tc \<and> 1 \<le> i \<and> i \<le> tc \<and>
          denoise_file env mean var out_dir use_gpu gpu_id truncate_minutes wav s0
            = (Inr (), s')
          \<longrightarrow> (\<exists>pre post. out_files s' (path_join out_dir (basename wav))
                              = Some (16000, pre @ chunk_of wav_data c i @ post)))"
proof
  show "process_chunk env mean var use_gpu gpu_id wav wav_data c tc i data_se s =
           (Inr (data_se @ [chunk_of wav_data c i]),
            s\<lparr>tmp_counter := Suc (tmp_counter s),
              scratch := (scratch s)(tmp_counter s := None),
              trace := trace s @ [Call_mkdtemp (tmp_path (tmp_counter s)),
                                  Print (processing_msg wav i tc),
                                  Call_rmtree (tmp_path (tmp_counter s))]\<rparr>)"
    using assms
    by (simp add: process_chunk_def mkdtemp_def chunk_body_def rmtree_def emit_def Let_def
          WL2_def WL_def)
next
  show "wav_read env wav = Inr (16000, raw) \<and>
          peak_normalization env raw = Inr wav_data \<and>
          c = chunk_length_of truncate_minutes 16000 \<and>
          total_chunks_of (length wav_data) c = Inr tc \<and> 1 \<le> i \<and> i \<le> tc \<and>
          denoise_file env mean var out_dir use_gpu gpu_id truncate_minutes wav s0
            = (Inr (), s')
          \<longrightarrow> (\<exists>pre post. out_files s' (path_join out_dir (basename wav))
                              = Some (16000, pre @ chunk_of wav_data c i @ post))"
  proof
    assume h: "wav_read env wav = Inr (16000, raw) \<and>
          peak_normalization env raw = Inr wav_data \<and>
          c = chunk_length_of truncate_minutes 16000 \<and>
          total_chunks_of (length wav_data) c = Inr tc \<and> 1 \<le> i \<and> i \<le> tc \<and>
          denoise_file env mean var out_dir use_gpu gpu_id truncate_minutes wav s0
            = (Inr (), s')"
    let ?P = "\<lambda>i w. if int (length (chunk_of wav_data c i)) < WL2
                    then w = chunk_of wav_data c i
                    else (\<exists>m. logspec2wav env m (chunk_of wav_data c i) = Inr w)"
    from h have read: "wav_read env wav = Inr (16000, raw)"
      and norm: "peak_normalization env raw = Inr wav_data"
      and c: "c = chunk_length_of truncate_minutes 16000"
      and tc: "total_chunks_of (length wav_data) c = Inr tc"
      and i: "1 \<le> i" "i \<le> tc"
      and run: "denoise_file env mean var out_dir use_gpu gpu_id truncate_minutes wav s0
                  = (Inr (), s')"
      by blast+
    from denoise_file_success[OF run read norm] tc obtain ds s2 where
      loop: "chunk_loop env mean var use_gpu gpu_id wav wav_data c tc [1..tc] []
                 (emit (Call_peak_normalization raw) s0) = (Inr ds, s2)"
      and s': "s' = emit (Print (finished_msg wav))
                   (wav_write (path_join out_dir (basename wav)) 16000 (concat ds) s2)"
      unfolding c by auto
    from chunk_loop_outs[OF loop] have all2: "list_all2 ?P [1..tc] ds" by simp
    have "i \<in> set [1..tc]" using i by simp
    from all2_member[OF all2 this] obtain w where w: "w \<in> set ds" "?P i w" by blast
    have "int (length (chunk_of wav_data c i)) < WL2"
      using assms by (simp add: WL2_def WL_def)
    then have "w = chunk_of wav_data c i" using w(2) by simp
    then have "chunk_of wav_data c i \<in> set ds" using w(1) by simp
    from concat_member[OF this] obtain pre post where
      "concat ds = pre @ chunk_of wav_data c i @ post" by blast
    moreover have "out_files s' (path_join out_dir (basename wav)) = Some (16000, concat ds)"
      by (simp add: s' wav_write_def)
    ultimately show "\<exists>pre post. out_files s' (path_join out_dir (basename wav))
                              = Some (16000, pre @ chunk_of wav_data c i @ post)"
      by auto
  qed
qed

theorem short_chunk_passthrough_witness:
  "length (chunk_of (replicate 600 (1::int)) 468 2) < 256 \<and>
   fst (process_chunk demo_env demo_mean demo_var True 0 ''in/a.wav'' (replicate 600 1) 468 2 2
          [replicate 468 1] init_state) = Inr [replicate 468 1, replicate 132 1] \<and>
   trace (snd (process_chunk demo_env demo_mean demo_var True 0 ''in/a.wav'' (replicate 600 1)
          468 2 2 [replicate 468 1] init_state)) =
     [Call_mkdtemp ''/tmp/tmp0'',
      Print ''Processing file: in/a.wav, segment: 2/2.'',
      Call_rmtree ''/tmp/tmp0''] \<and>
   (\<exists>pre post. out_files (snd (denoise_file demo_env demo_mean demo_var ''out'' True 0
                                (1 / 2048) ''in/a.wav'' init_state)) ''out/a.wav''
                = Some (16000, pre @ replicate 132 1 @ post))"
proof -
  let ?f = "denoise_file demo_env demo_mean demo_var ''out'' True 0 (1 / 2048) ''in/a.wav''
              (init_state :: int state)"
  have c: "chunk_of (replicate 600 (1::int)) 468 2 = replicate 132 1"
    by (simp add: chunk_of_nat)
  have h: "length (chunk_of (replicate 600 (1::int)) 468 2) < 256"
    by (simp add: c)
  have read: "wav_read demo_env ''in/a.wav'' = Inr (16000, replicate 600 1)"
    and norm: "peak_normalization demo_env (replicate 600 1) = Inr (replicate 600 1)"
    by (simp_all add: demo_env_def)
  have cl: "(468::int) = chunk_length_of (1 / 2048) 16000"
    by (simp add: chunk_length_examples)
  have t: "total_chunks_of (length (replicate 600 (1::int))) 468 = Inr 2"
    by (simp add: total_chunks_of_def)
  have ok: "fst ?f = Inr ()" using demo_file_a[of True 0 init_state] by simp
  then have run: "?f = (Inr (), snd ?f)" by (metis prod.collapse)
  have p: "path_join ''out'' (basename ''in/a.wav'') = ''out/a.wav''"
    by (simp add: path_join_def basename_def)
  note inst = short_chunk_passthrough[OF h, of demo_env demo_mean demo_var True 0 "''in/a.wav''" 2
        "[replicate 468 1]" init_state "replicate 600 1" "1 / 2048" "''out''" init_state
        "snd ?f"]
  from inst have a: "process_chunk demo_env demo_mean demo_var True 0 ''in/a.wav''
         (replicate 600 1) 468 2 2 [replicate 468 1] init_state =
           (Inr ([replicate 468 1] @ [chunk_of (replicate 600 1) 468 2]),
            init_state\<lparr>tmp_counter := Suc (tmp_counter (init_state :: int state)),
              scratch := (scratch (init_state :: int state))
                           (tmp_counter (init_state :: int state) := None),
              trace := trace (init_state :: int state) @
                 [Call_mkdtemp (tmp_path (tmp_counter (init_state :: int state))),
                  Print (processing_msg ''in/a.wav'' 2 2),
                  Call_rmtree (tmp_path (tmp_counter (init_state :: int state)))]\<rparr>)"
    by (rule conjunct1)
  from inst read norm cl t run
  have b: "\<exists>pre post. out_files (snd ?f) (path_join ''out'' (basename ''in/a.wav''))
                              = Some (16000, pre @ chunk_of (replicate 600 1) 468 2 @ post)"
    by simp
  have m: "processing_msg ''in/a.wav'' 2 2 = ''Processing file: in/a.wav, segment: 2/2.''"
    by (simp add: processing_msg_def show_int_def show_nat.simps)
  have i0: "tmp_counter (init_state :: int state) = 0" "trace (init_state :: int state) = []"
    by (simp_all add: init_state_def)
  show ?thesis
    using h b unfolding p c by (simp add: a c m i0 tmp_path_0)
qed

section \<open>Files at another sample rate\<close>

text \<open>
  Claim C7. A file whose sample rate is not 16000 Hz is skipped: the only thing its
  iteration does is print the report (no normalization, no chunk, no scratch directory,
  no output file), it raises nothing, and the batch goes on with the next file.
\<close>

theorem wrong_rate_skipped:
  assumes "wav_read env wav = Inr (rate, raw)" and "rate \<noteq> 16000"
  shows "denoise_file env mean var out_dir use_gpu gpu_id truncate_minutes wav s =
           (Inr (), s\<lparr>trace := trace s @ [Print (skip_msg wav)]\<rparr>) \<and>
         main_denoising env mean var (wav # wavs) out_dir use_gpu gpu_id truncate_minutes s =
           main_denoising env mean var wavs out_dir use_gpu gpu_id truncate_minutes
             (s\<lparr>trace := trace s @ [Print (skip_msg wav)]\<rparr>)"
  using assms by (simp add: main_denoising_def denoise_file_def chunk_numbers_def SR_def emit_def)

theorem wrong_rate_skipped_witness:
  "wav_read demo_env ''in/b.wav'' = Inr (8000, replicate 600 1) \<and> (8000::int) \<noteq> 16000 \<and>
   fst (main_denoising demo_env demo_mean demo_var [''in/b.wav'', ''in/a.wav''] ''out'' True 0
          (1 / 2048) init_state) = Inr () \<and>
   out_files (snd (main_denoising demo_env demo_mean demo_var [''in/b.wav'', ''in/a.wav'']
          ''out'' True 0 (1 / 2048) init_state))
     = [''out/a.wav'' \<mapsto> (16000, replicate 600 1)]"
proof -
  have r: "wav_read demo_env ''in/b.wav'' = Inr (8000, replicate 600 1)"
    by (simp add: demo_env_def)
  have n: "(8000::int) \<noteq> 16000" by simp
  let ?s = "init_state\<lparr>trace := trace init_state @ [Print (skip_msg ''in/b.wav'')]\<rparr>
              :: int state"
  have o: "out_files ?s = Map.empty" by (simp add: init_state_def)
  show ?thesis
    using wrong_rate_skipped[OF r n, of demo_mean demo_var "''out''" True 0 "1 / 2048"
            init_state "[''in/a.wav'']"]
          demo_batch_a[of True 0 ?s] r
    by (simp add: o)
qed

section \<open>Scratch directories\<close>

text \<open>
  Claim C8. Every iteration of the chunk loop creates a scratch directory of its own
  (named from a supply that never repeats) and removes it before the iteration is left,
  whatever the outcome \<open>r\<close> of the iteration: a chunk that was enhanced, a chunk that
  was too short, or an exception (a predictor failure among them). Between the creation
  and the removal, every file the iteration writes or reads (feature record, index
  record, mask record) lies in that directory, and no other scratch directory is touched.
\<close>
theorem scratch_dir_always_removed:
  assumes "process_chunk env mean var use_gpu gpu_id wav wav_data c tc i data_se s = (r, s')"
  shows "(\<exists>evs. trace s' = trace s @ [Call_mkdtemp (tmp_path (tmp_counter s))] @ evs @
                     [Call_rmtree (tmp_path (tmp_counter s))] \<and>
                (\<forall>ev\<in>set evs. scratch_event (tmp_path (tmp_counter s)) ev)) \<and>
         tmp_counter s' = Suc (tmp_counter s) \<and>
         scratch s' (tmp_counter s) = None \<and>
         (\<forall>d. d \<noteq> tmp_counter s \<longrightarrow> scratch s' d = scratch s d) \<and>
         (scratch s (tmp_counter s) = None \<longrightarrow> scratch s' = scratch s)"
proof -
  from process_chunk_frame[OF assms] obtain evs where
    f: "tmp_counter s' = Suc (tmp_counter s)"
       "scratch s' = (scratch s)(tmp_counter s := None)"
       "trace s' = trace s @ [Call_mkdtemp (tmp_path (tmp_counter s))] @ evs @
                    [Call_rmtree (tmp_path (tmp_counter s))]"
       "\<forall>ev\<in>set evs. scratch_event (tmp_path (tmp_counter s)) ev"
    by blast
  have "scratch s (tmp_counter s) = None \<longrightarrow> scratch s' = scratch s"
    unfolding f(2) by (auto simp: fun_upd_idem)
  then show ?thesis using f by auto
qed

theorem scratch_dir_always_removed_witness:
  "fst (process_chunk flaky_env demo_mean demo_var True 0 ''in/a.wav'' (replicate 600 1) 468 2 1
          [] init_state) = Inl IOError \<and>
   scratch (snd (process_chunk flaky_env demo_mean demo_var True 0 ''in/a.wav''
          (replicate 600 1) 468 2 1 [] init_state)) = Map.empty \<and>
   hd (trace (snd (process_chunk flaky_env demo_mean demo_var True 0 ''in/a.wav''
          (replicate 600 1) 468 2 1 [] init_state))) = Call_mkdtemp ''/tmp/tmp0'' \<and>
   last (trace (snd (process_chunk flaky_env demo_mean demo_var True 0 ''in/a.wav''
          (replicate 600 1) 468 2 1 [] init_state))) = Call_rmtree ''/tmp/tmp0''"
proof -
  let ?p = "process_chunk flaky_env demo_mean demo_var True 0 ''in/a.wav'' (replicate 600 1)
              468 2 1 [] (init_state :: int state)"
  have c: "chunk_of (replicate 600 (1::int)) 468 1 = replicate 468 1"
    by (simp add: chunk_of_nat)
  have crash: "fst ?p = Inl IOError"
    by (rule flaky_process_chunk_crash) (simp_all add: init_state_def c)
  have run: "?p = (fst ?p, snd ?p)" by simp
  show ?thesis
    using scratch_dir_always_removed[OF run] crash
    by (auto simp: init_state_def tmp_path_0)
qed

section \<open>The index record\<close>

text \<open>
  Claim C9, amended. For an enhanced chunk whose feature matrix has \<open>frame_count\<close>
  frames, the index record written for the predictor is the single line
  \<open>irm=<path>[0,<frame_count - 1>]\<close> followed by a newline, where \<open><path>\<close> is the
  path of the feature record in the chunk's scratch directory. The frame range it names
  has both ends included: the frames from 0 to \<open>frame_count - 1\<close> are all the frames.
  (Read with the last frame excluded, the range would leave the last frame out, as the
  counterexample below shows for three frames.)
\<close>
theorem index_record_names_all_frames:
  assumes "enhance env mean var use_gpu gpu_id d temp s = (Inr w, s')"
  shows "\<exists>lps line.
           wav2logspec env temp = Inr lps \<and>
           line = ''irm='' @ tmp_path d @ ''/noisy_normed_lps.htk'' @ ''[0,'' @
                  show_int (int (nrows lps) - 1) @ '']'' \<and>
           CHR 0x0A \<notin> set line \<and>
           Write_text (tmp_path d @ ''/noisy_normed_lps.scp'') (line @ [CHR 0x0A])
             \<in> set (trace s') \<and>
           (\<exists>normed. Call_write_htk (tmp_path d @ ''/noisy_normed_lps.htk'') normed 16000 9
             \<in> set (trace s')) \<and>
           {0..cntk_len_of lps} = {k. 0 \<le> k \<and> k < int (nrows lps)}"
proof -
  from enhance_success[OF assms] obtain lps normed masked where
    l: "wav2logspec env temp = Inr lps"
    and t: "trace s' = trace s @
             [Call_wav2logspec temp,
              Call_write_htk (path_join (tmp_path d) ''noisy_normed_lps.htk'') normed 16000 9,
              Write_text (path_join (tmp_path d) ''noisy_normed_lps.scp'')
                (index_record (path_join (tmp_path d) ''noisy_normed_lps.htk'')
                   (cntk_len_of lps)),
              Call_decode_model (path_join (tmp_path d) ''noisy_normed_lps.scp'') (tmp_path d)
                257 use_gpu gpu_id,
              Call_loadmat (path_join (tmp_path d) ''irm.mat''),
              Call_logspec2wav masked temp]"
    by blast
  define line where "line = ''irm='' @ tmp_path d @ ''/noisy_normed_lps.htk'' @ ''[0,'' @
                  show_int (int (nrows lps) - 1) @ '']''"
  have rec: "index_record (path_join (tmp_path d) ''noisy_normed_lps.htk'') (cntk_len_of lps)
             = line @ [CHR 0x0A]"
    by (simp add: index_record_def path_join_tmp cntk_len_of_def line_def)
  have "CHR 0x0A \<notin> set (show_int (int (nrows lps) - 1))"
    by (rule show_int_no_newline)
  then have nl: "CHR 0x0A \<notin> set line"
    using tmp_path_chars[of d] by (simp add: line_def)
  have w: "Write_text (tmp_path d @ ''/noisy_normed_lps.scp'') (line @ [CHR 0x0A])
             \<in> set (trace s')"
    unfolding t rec[symmetric] by (simp add: path_join_tmp)
  have h: "\<exists>normed. Call_write_htk (tmp_path d @ ''/noisy_normed_lps.htk'') normed 16000 9
             \<in> set (trace s')"
    unfolding t by (auto simp: path_join_tmp)
  have r: "{0..cntk_len_of lps} = {k. 0 \<le> k \<and> k < int (nrows lps)}"
    by (auto simp: cntk_len_of_def)
  show ?thesis using l line_def nl w h r by blast
qed

theorem index_record_names_all_frames_counterexample:
  "int (nrows demo_lps) = 3 \<and>
   index_record ''/tmp/tmp0/noisy_normed_lps.htk'' (cntk_len_of demo_lps)
     = ''irm=/tmp/tmp0/noisy_normed_lps.htk[0,2]'' @ [CHR 0x0A] \<and>
   {0..<cntk_len_of demo_lps} \<noteq> {0..<int (nrows demo_lps)}"
proof -
  have n: "int (nrows demo_lps) = 3" by (simp add: demo_lps_def)
  have c: "cntk_len_of demo_lps = 2" by (simp add: cntk_len_of_def demo_lps_def)
  have s: "show_int 2 = ''2''" by (simp add: show_int_def show_nat.simps)
  have "(2::int) \<in> {0..<3}" "(2::int) \<notin> {0..<2}" by simp_all
  then have "{0..<2::int} \<noteq> {0..<3}" by blast
  then show ?thesis
    unfolding n c by (simp add: index_record_def s)
qed

theorem index_record_names_all_frames_witness:
  "fst (enhance demo_env demo_mean demo_var True 0 0 (replicate 468 1) init_state)
     = Inr (replicate 468 1) \<and>
   Write_text ''/tmp/tmp0/noisy_normed_lps.scp''
     (''irm=/tmp/tmp0/noisy_normed_lps.htk[0,2]'' @ [CHR 0x0A])
     \<in> set (trace (snd (enhance demo_env demo_mean demo_var True 0 0 (replicate 468 1)
                           init_state)))"
proof -
  let ?e = "enhance demo_env demo_mean demo_var True 0 0 (replicate 468 1)
              (init_state :: int state)"
  have ok: "fst ?e = Inr (replicate 468 1)" by (rule demo_enhance)
  then have run: "?e = (Inr (replicate 468 1), snd ?e)" by (metis prod.collapse)
  have l: "wav2logspec demo_env (replicate 468 1) = Inr demo_lps" by (simp add: demo_env_def)
  have n: "show_int (int (nrows demo_lps) - 1) = ''2''"
    by (simp add: demo_lps_def show_int_def show_nat.simps)
  from index_record_names_all_frames[OF run] obtain lps line where
    f: "wav2logspec demo_env (replicate 468 1) = Inr lps"
       "line = ''irm='' @ tmp_path 0 @ ''/noisy_normed_lps.htk'' @ ''[0,'' @
                  show_int (int (nrows lps) - 1) @ '']''"
       "Write_text (tmp_path 0 @ ''/noisy_normed_lps.scp'') (line @ [CHR 0x0A])
             \<in> set (trace (snd ?e))"
    by blast
  have "lps = demo_lps" using f(1) l by simp
  then have "line = ''irm=/tmp/tmp0/noisy_normed_lps.htk[0,2]''"
    using f(2) by (simp add: n tmp_path_0)
  then show ?thesis using f(3) ok by (simp add: tmp_path_0)
qed

section \<open>Files without samples\<close>

text \<open>
  Claim C10. For a file at 16000 Hz with no samples (whose normalization has no samples
  either) the number of chunks is zero, \<open>np.concatenate\<close> of the empty list of chunk
  outputs raises, nothing is written for the file, and the exception leaves the loop
  over the files: the files after it are not processed. (When the chunk length is zero
  the division of line 84 raises first.)
\<close>

theorem empty_file_raises:
  assumes "wav_read env wav = Inr (16000, [])" and "peak_normalization env [] = Inr []"
  shows "main_denoising env mean var (wav # wavs) out_dir use_gpu gpu_id truncate_minutes s =
           (Inl (if chunk_length_of truncate_minutes 16000 = 0 then ZeroDivisionError
                 else ValueError),
            s\<lparr>trace := trace s @ [Call_peak_normalization []]\<rparr>) \<and>
         (chunk_length_of truncate_minutes 16000 \<noteq> 0 \<longrightarrow>
            total_chunks_of (length ([] :: 'a list)) (chunk_length_of truncate_minutes 16000)
              = Inr 0) \<and>
         np_concatenate ([] :: 'a list list) = Inl ValueError"
  using assms
  by (simp add: main_denoising_def denoise_file_def chunk_numbers_def SR_def emit_def total_chunks_of_def
        np_concatenate_def)

theorem empty_file_raises_witness:
  "wav_read demo_env ''in/e.wav'' = Inr (16000, []) \<and>
   peak_normalization demo_env [] = Inr [] \<and>
   chunk_length_of 10 16000 = 9600000 \<and>
   main_denoising demo_env demo_mean demo_var [''in/e.wav'', ''in/a.wav''] ''out'' True 0 10
     init_state
     = (Inl ValueError, init_state\<lparr>trace := [Call_peak_normalization []]\<rparr>)"
proof -
  have r: "wav_read demo_env ''in/e.wav'' = Inr (16000, [])"
    by (simp add: demo_env_def)
  have p: "peak_normalization demo_env [] = Inr []"
    by (simp add: demo_env_def)
  have c: "chunk_length_of 10 16000 = 9600000"
    by (simp add: chunk_length_examples)
  have t: "trace (init_state :: int state) @ [Call_peak_normalization []]
             = [Call_peak_normalization []]"
    by (simp add: init_state_def)
  have i: "(if chunk_length_of 10 16000 = 0 then ZeroDivisionError else ValueError) = ValueError"
    by (simp add: c)
  have "main_denoising demo_env demo_mean demo_var [''in/e.wav'', ''in/a.wav''] ''out'' True 0 10
     init_state
     = (Inl ValueError, init_state\<lparr>trace := [Call_peak_normalization []]\<rparr>)"
    using empty_file_raises[OF r p, of demo_mean demo_var "[''in/a.wav'']" "''out''" True 0 10
            init_state]
    unfolding t i by (rule conjunct1)
  then show ?thesis using r p c by blast
qed

end
